theory Spec2Isabelle
  imports Complex_Main
begin

section \<open>Numbers of the notebook\<close>

text \<open>
  The notebook \<^verbatim>\<open>portfolio_optimizer.ipynb\<close> computes with NumPy and pandas
  \<^verbatim>\<open>float64\<close> values. A value is modelled as a real number or one of the three
  special values of IEEE 754. Arithmetic on finite values is exact real arithmetic:
  rounding, overflow and the sign of zero are not modelled (a quotient by zero takes the
  sign of its numerator, as with \<^verbatim>\<open>+0.0\<close>). The special values propagate as
  IEEE 754 says; NumPy raises no exception for them, it only warns.
\<close>

datatype fl = Fin real | PInf | NInf | NaN

fun is_fin :: "fl \<Rightarrow> bool" where
  "is_fin (Fin _) = True"
| "is_fin _ = False"

fun isnan :: "fl \<Rightarrow> bool" where
  "isnan NaN = True"
| "isnan _ = False"

fun fneg :: "fl \<Rightarrow> fl" where
  "fneg (Fin a) = Fin (- a)"
| "fneg PInf = NInf"
| "fneg NInf = PInf"
| "fneg NaN = NaN"

fun fadd :: "fl \<Rightarrow> fl \<Rightarrow> fl" where
  "fadd (Fin a) (Fin b) = Fin (a + b)"
| "fadd NaN _ = NaN"
| "fadd _ NaN = NaN"
| "fadd PInf NInf = NaN"
| "fadd NInf PInf = NaN"
| "fadd PInf _ = PInf"
| "fadd _ PInf = PInf"
| "fadd NInf _ = NInf"
| "fadd _ NInf = NInf"

definition fsub :: "fl \<Rightarrow> fl \<Rightarrow> fl" where
  "fsub a b = fadd a (fneg b)"

fun fmul :: "fl \<Rightarrow> fl \<Rightarrow> fl" where
  "fmul (Fin a) (Fin b) = Fin (a * b)"
| "fmul NaN _ = NaN"
| "fmul _ NaN = NaN"
| "fmul (Fin a) PInf = (if a = 0 then NaN else if 0 < a then PInf else NInf)"
| "fmul (Fin a) NInf = (if a = 0 then NaN else if 0 < a then NInf else PInf)"
| "fmul PInf (Fin b) = (if b = 0 then NaN else if 0 < b then PInf else NInf)"
| "fmul NInf (Fin b) = (if b = 0 then NaN else if 0 < b then NInf else PInf)"
| "fmul PInf PInf = PInf"
| "fmul PInf NInf = NInf"
| "fmul NInf PInf = NInf"
| "fmul NInf NInf = PInf"

fun fdiv :: "fl \<Rightarrow> fl \<Rightarrow> fl" where
  "fdiv (Fin a) (Fin b) =
     (if b \<noteq> 0 then Fin (a / b)
      else if a = 0 then NaN else if 0 < a then PInf else NInf)"
| "fdiv NaN _ = NaN"
| "fdiv _ NaN = NaN"
| "fdiv (Fin a) PInf = Fin 0"
| "fdiv (Fin a) NInf = Fin 0"
| "fdiv PInf (Fin b) = (if 0 \<le> b then PInf else NInf)"
| "fdiv NInf (Fin b) = (if 0 \<le> b then NInf else PInf)"
| "fdiv PInf PInf = NaN"
| "fdiv PInf NInf = NaN"
| "fdiv NInf PInf = NaN"
| "fdiv NInf NInf = NaN"

fun fsqrt :: "fl \<Rightarrow> fl" where
  "fsqrt (Fin a) = (if a < 0 then NaN else Fin (sqrt a))"
| "fsqrt PInf = PInf"
| "fsqrt NInf = NaN"
| "fsqrt NaN = NaN"

fun flog :: "fl \<Rightarrow> fl" where
  "flog (Fin a) = (if a < 0 then NaN else if a = 0 then NInf else Fin (ln a))"
| "flog PInf = PInf"
| "flog NInf = NaN"
| "flog NaN = NaN"

fun fabs :: "fl \<Rightarrow> fl" where
  "fabs (Fin a) = Fin \<bar>a\<bar>"
| "fabs PInf = PInf"
| "fabs NInf = PInf"
| "fabs NaN = NaN"

text \<open>The comparisons \<^verbatim>\<open><\<close> and \<^verbatim>\<open><=\<close>: false as soon as one side is NaN.\<close>

fun flt :: "fl \<Rightarrow> fl \<Rightarrow> bool" where
  "flt (Fin a) (Fin b) = (a < b)"
| "flt NaN _ = False"
| "flt _ NaN = False"
| "flt _ NInf = False"
| "flt PInf _ = False"
| "flt NInf _ = True"
| "flt _ PInf = True"

fun fle :: "fl \<Rightarrow> fl \<Rightarrow> bool" where
  "fle (Fin a) (Fin b) = (a \<le> b)"
| "fle NaN _ = False"
| "fle _ NaN = False"
| "fle NInf _ = True"
| "fle _ PInf = True"
| "fle _ NInf = False"
| "fle PInf _ = False"

text \<open>\<^verbatim>\<open>np.sum\<close> of a vector (0.0 when it is empty) and the inner product.\<close>

definition fsum :: "fl list \<Rightarrow> fl" where
  "fsum xs = foldr fadd xs (Fin 0)"

definition dot :: "fl list \<Rightarrow> fl list \<Rightarrow> fl" where
  "dot u v = fsum (map2 fmul u v)"

definition matvec :: "fl list list \<Rightarrow> fl list \<Rightarrow> fl list" where
  "matvec c w = map (\<lambda>row. dot row w) c"

section \<open>Errors\<close>

text \<open>
  \<open>ValueError\<close> is the exception NumPy raises for a negative dimension or sample
  count and for operands whose shapes do not fit. The other three are the error kinds the
  specification names; the notebook has no \<^verbatim>\<open>raise\<close> statement and no path
  through it produces them.
\<close>

datatype error = ValueError | InsufficientDataError | InvalidArgumentError | DegenerateRiskError

section \<open>Data frames\<close>

text \<open>
  A pandas DataFrame of floats: its column labels and its rows. Every row of a frame has
  one entry per column (\<open>wf_df\<close>); pandas guarantees it.
\<close>

record dataframe =
  df_columns :: "string list"
  df_rows :: "fl list list"

definition ncols :: "dataframe \<Rightarrow> nat" where
  "ncols df = length (df_columns df)"

definition wf_df :: "dataframe \<Rightarrow> bool" where
  "wf_df df = list_all (\<lambda>r. length r = ncols df) (df_rows df)"

definition column :: "dataframe \<Rightarrow> nat \<Rightarrow> fl list" where
  "column df j = map (\<lambda>r. r ! j) (df_rows df)"

text \<open>
  \<^verbatim>\<open>log_ret = np.log(stocks/stocks.shift(1))\<close>: \<^verbatim>\<open>shift(1)\<close> moves every row
  one place down and fills the first row with NaN.
\<close>

definition shift1 :: "dataframe \<Rightarrow> dataframe" where
  "shift1 df =
     df\<lparr>df_rows := (if df_rows df = [] then []
                    else replicate (ncols df) NaN # butlast (df_rows df))\<rparr>"

definition log_ret :: "dataframe \<Rightarrow> dataframe" where
  "log_ret stocks =
     stocks\<lparr>df_rows :=
       map2 (\<lambda>r s. map flog (map2 fdiv r s)) (df_rows stocks) (df_rows (shift1 stocks))\<rparr>"

text \<open>\<^verbatim>\<open>log_return[1:]\<close>: the frame without its first row.\<close>

definition df_tail :: "dataframe \<Rightarrow> dataframe" where
  "df_tail df = df\<lparr>df_rows := drop 1 (df_rows df)\<rparr>"

text \<open>
  \<^verbatim>\<open>np.nanmean(log_return, axis=0)\<close>: per column, the sum of the entries that are
  not NaN divided by their number; a column with no such entry gives 0/0 = NaN.
  \<^verbatim>\<open>log_ret.mean()\<close> of pandas skips NaN in the same way.
\<close>

definition np_nanmean :: "dataframe \<Rightarrow> fl list" where
  "np_nanmean df =
     map (\<lambda>j. let vs = filter (\<lambda>v. \<not> isnan v) (column df j)
              in fdiv (fsum vs) (Fin (real (length vs))))
         [0..<ncols df]"

definition pd_mean :: "dataframe \<Rightarrow> fl list" where
  "pd_mean df = np_nanmean df"

text \<open>
  \<^verbatim>\<open>np.cov(m, rowvar=False)\<close> as documented: the columns are the variables, the rows
  the observations. With \<open>n\<close> rows: \<^verbatim>\<open>avg\<close> is the mean of each column,
  \<^verbatim>\<open>fact = n - 1\<close> (set to 0.0 when it is not positive), the centred columns are
  multiplied pairwise and summed, and the products are scaled by \<^verbatim>\<open>1/fact\<close>.
  No entry is skipped. \<open>cov_core\<close> is the square matrix before \<^verbatim>\<open>squeeze()\<close>.
  A matrix of a single row is transposed like any other, as the documentation of
  \<^verbatim>\<open>rowvar\<close> says; a release of NumPy that leaves such a matrix untransposed is
  not modelled.
\<close>

definition cov_core :: "dataframe \<Rightarrow> fl list list" where
  "cov_core df =
     (let n = length (df_rows df);
          cols = map (column df) [0..<ncols df];
          avg = map (\<lambda>c. fdiv (fsum c) (Fin (real n))) cols;
          fact = (if n \<le> 1 then 0 else real n - 1);
          X = map2 (\<lambda>c a. map (\<lambda>v. fsub v a) c) cols avg;
          c = map (\<lambda>xi. map (\<lambda>xj. dot xi xj) X) X
      in map (map (\<lambda>v. fmul v (fdiv (Fin 1) (Fin fact)))) c)"

text \<open>
  The result of \<^verbatim>\<open>np.cov\<close> after \<^verbatim>\<open>squeeze()\<close>: one variable gives a
  0-dimensional array (shape \<^verbatim>\<open>()\<close>), otherwise the matrix stays.
\<close>

datatype ndarray = Scalar fl | Matrix "fl list list"

definition np_cov :: "dataframe \<Rightarrow> ndarray" where
  "np_cov df = (if ncols df = 1 then Scalar (cov_core df ! 0 ! 0) else Matrix (cov_core df))"

fun nd_scale :: "ndarray \<Rightarrow> fl \<Rightarrow> ndarray" where
  "nd_scale (Scalar v) k = Scalar (fmul v k)"
| "nd_scale (Matrix m) k = Matrix (map (map (\<lambda>v. fmul v k)) m)"

text \<open>\<^verbatim>\<open>np.dot(a, weights)\<close> for a 0-dimensional or a 2-dimensional \<open>a\<close>.\<close>

fun nd_dot :: "ndarray \<Rightarrow> fl list \<Rightarrow> fl list" where
  "nd_dot (Scalar v) w = map (\<lambda>x. fmul v x) w"
| "nd_dot (Matrix m) w = matvec m w"

text \<open>
  \<^verbatim>\<open>log_ret.cov()\<close> of pandas (\<^verbatim>\<open>DataFrame.cov\<close>, \<^verbatim>\<open>ddof=1\<close>): a frame
  with no NaN goes through \<^verbatim>\<open>np.cov(mat.T)\<close>, reshaped to a square matrix; otherwise
  every pair of columns is computed by \<^verbatim>\<open>nancorr\<close> over the rows where both entries
  are finite (its mask is \<^verbatim>\<open>np.isfinite\<close>): NaN with no such row or with a single
  one, the co-moment over \<^verbatim>\<open>nobs - 1\<close> otherwise. The running update of
  \<^verbatim>\<open>nancorr\<close> is written in its closed form, which exact arithmetic makes equal.
\<close>

definition nancorr_entry :: "dataframe \<Rightarrow> nat \<Rightarrow> nat \<Rightarrow> fl" where
  "nancorr_entry df xi yi =
     (let ps = filter (\<lambda>(vx, vy). is_fin vx \<and> is_fin vy) (zip (column df xi) (column df yi));
          nobs = length ps;
          meanx = fdiv (fsum (map fst ps)) (Fin (real nobs));
          meany = fdiv (fsum (map snd ps)) (Fin (real nobs));
          covxy = fsum (map (\<lambda>(vx, vy). fmul (fsub vx meanx) (fsub vy meany)) ps);
          divisor = real nobs - 1
      in if nobs < 1 then NaN
         else if divisor \<noteq> 0 then fdiv covxy (Fin divisor) else NaN)"

definition pd_cov :: "dataframe \<Rightarrow> fl list list" where
  "pd_cov df =
     (if list_all (list_all (\<lambda>v. \<not> isnan v)) (df_rows df) then cov_core df
      else map (\<lambda>xi. map (\<lambda>yi. nancorr_entry df xi yi) [0..<ncols df]) [0..<ncols df])"

section \<open>Portfolio metrics\<close>

text \<open>
  \<^verbatim>\<open>
  def get_ret_vol_sr(weights):
      weights = np.array(weights)
      ret = np.sum(log_ret.mean() * weights) * 252
      vol = np.sqrt(np.dot(weights.T, np.dot(log_ret.cov() * 252, weights)))
      sr = ret/vol
      return np.array([ret,vol,sr])
  \<close>
  The global \<^verbatim>\<open>log_ret\<close> is a parameter. Weights whose number is not the number of
  columns make the product with the mean returns or with the covariance matrix raise
  \<open>ValueError\<close>. \<^verbatim>\<open>log_ret.mean() * weights\<close> is a pandas Series, and
  \<^verbatim>\<open>np.sum\<close> of a Series is \<^verbatim>\<open>Series.sum\<close>, which skips NaN (and gives 0.0
  when nothing is left). The quotient
  \<^verbatim>\<open>ret/vol\<close> is a \<^verbatim>\<open>float64\<close> division: by zero it gives an infinity or NaN.
\<close>

definition get_ret_vol_sr :: "dataframe \<Rightarrow> fl list \<Rightarrow> error + fl list" where
  "get_ret_vol_sr log_ret_g weights =
     (if length weights \<noteq> ncols log_ret_g then Inl ValueError
      else
        let ret = fmul (fsum (filter (\<lambda>v. \<not> isnan v) (map2 fmul (pd_mean log_ret_g) weights)))
                    (Fin 252);
            vol = fsqrt (dot weights
                    (matvec (map (map (\<lambda>v. fmul v (Fin 252))) (pd_cov log_ret_g)) weights));
            sr = fdiv ret vol
        in Inr [ret, vol, sr])"

text \<open>
  \<^verbatim>\<open>
  def check_sum(weights):
      return np.sum(weights) - 1
  def get_return(mean_ret, weights):
      return np.sum(mean_ret * weights) * 252
  def get_volatility(log_ret, weights):
      return np.sqrt(np.dot(weights.T, np.dot(np.cov(log_ret[1:], rowvar=False) * 252, weights)))
  \<close>
  Every caller passes one weight per column.
\<close>

definition check_sum :: "fl list \<Rightarrow> fl" where
  "check_sum weights = fsub (fsum weights) (Fin 1)"

definition get_return :: "fl list \<Rightarrow> fl list \<Rightarrow> fl" where
  "get_return mean_ret weights = fmul (fsum (map2 fmul mean_ret weights)) (Fin 252)"

definition get_volatility :: "dataframe \<Rightarrow> fl list \<Rightarrow> fl" where
  "get_volatility log_ret_a weights =
     fsqrt (dot weights (nd_dot (nd_scale (np_cov (df_tail log_ret_a)) (Fin 252)) weights))"

section \<open>Monte Carlo sampler\<close>

text \<open>
  \<^verbatim>\<open>np.random.random((num_ports, ncols))\<close> fills the matrix row by row from the
  generator's draws, each in the half-open interval from 0 to 1; \<open>rng k\<close> is the
  \<open>k\<close>-th draw. \<^verbatim>\<open>weights / np.sum(weights)\<close> divides a row by its own sum.
\<close>

definition np_random_random :: "(nat \<Rightarrow> real) \<Rightarrow> nat \<Rightarrow> nat \<Rightarrow> fl list list" where
  "np_random_random rng m n = map (\<lambda>i. map (\<lambda>j. Fin (rng (i * n + j))) [0..<n]) [0..<m]"

definition rebalance :: "fl list \<Rightarrow> fl list" where
  "rebalance weights = map (\<lambda>w. fdiv w (fsum weights)) weights"

text \<open>
  The annualised covariance of \<^verbatim>\<open>compute_random_allocations\<close>:
  \<^verbatim>\<open>
  return_covariance = np.cov(log_return[1:], rowvar=False) * 252
  if not return_covariance.shape:
      return_covariance = np.array([[252.]])
  \<close>
\<close>

definition return_covariance :: "dataframe \<Rightarrow> fl list list" where
  "return_covariance log_return =
     (case nd_scale (np_cov (df_tail log_return)) (Fin 252) of
        Scalar _ \<Rightarrow> [[Fin 252]]
      | Matrix m \<Rightarrow> m)"

text \<open>
  The frame \<^verbatim>\<open>compute_random_allocations\<close> returns: one weight column per asset
  (\<open>sd_weights\<close> holds them by row, one row per portfolio), the columns
  \<^verbatim>\<open>Return\<close>, \<^verbatim>\<open>Volatility\<close> and \<^verbatim>\<open>Sharpe\<close>, and the two entries of
  \<^verbatim>\<open>df.attrs\<close>. No asset is named like one of the three metric columns.
\<close>

record sample_df =
  sd_weights :: "fl list list"
  sd_Return :: "fl list"
  sd_Volatility :: "fl list"
  sd_Sharpe :: "fl list"
  sd_mean_return :: "fl list"
  sd_log_return :: dataframe

definition sd_columns :: "sample_df \<Rightarrow> string list" where
  "sd_columns df = df_columns (sd_log_return df) @ [''Return'', ''Volatility'', ''Sharpe'']"

text \<open>
  \<^verbatim>\<open>
  def compute_random_allocations(log_return, num_ports=15000):
      _, ncols = log_return.shape
      mean_return = np.nanmean(log_return, axis=0)
      weights = np.random.random((num_ports, ncols))
      normed_weights = (weights.T / np.sum(weights, axis=1)).T
      data = dict(zip(log_return.columns, normed_weights.T))
      data['Return'] = expected_return = np.sum((mean_return * normed_weights) * 252, axis=1)
      return_covariance = np.cov(log_return[1:], rowvar=False) * 252
      if not return_covariance.shape:
          return_covariance = np.array([[252.]])
      data['Volatility'] = volatility = np.sqrt((normed_weights * np.tensordot(return_covariance, normed_weights.T, axes=1).T).sum(axis=1))
      data['Sharpe'] = expected_return/volatility
      df = pd.DataFrame(data)
      df.attrs['mean_return'] = mean_return
      df.attrs['log_return'] = log_return
      return df
  \<close>
  The only exception is NumPy's \<open>ValueError\<close> for a negative \<^verbatim>\<open>num_ports\<close>.
\<close>

definition compute_random_allocations ::
    "(nat \<Rightarrow> real) \<Rightarrow> dataframe \<Rightarrow> int \<Rightarrow> error + sample_df" where
  "compute_random_allocations rng log_return num_ports =
     (if num_ports < 0 then Inl ValueError
      else
        let mean_return = np_nanmean log_return;
            weights = np_random_random rng (nat num_ports) (ncols log_return);
            normed_weights = map rebalance weights;
            expected_return =
              map (\<lambda>w. fsum (map (\<lambda>v. fmul v (Fin 252)) (map2 fmul mean_return w)))
                normed_weights;
            cov = return_covariance log_return;
            volatility = map (\<lambda>w. fsqrt (fsum (map2 fmul w (matvec cov w)))) normed_weights
        in Inr \<lparr>sd_weights = normed_weights,
                sd_Return = expected_return,
                sd_Volatility = volatility,
                sd_Sharpe = map2 fdiv expected_return volatility,
                sd_mean_return = mean_return,
                sd_log_return = log_return\<rparr>)"

section \<open>The constrained solver\<close>

text \<open>
  \<^verbatim>\<open>scipy.optimize.minimize(fun, x0, args, bounds=..., constraints=...)\<close> is a library
  outside the notebook, so it is a parameter here: any function of the objective, the
  initial guess, the bounds and the constraints. It returns an \<^verbatim>\<open>OptimizeResult\<close>
  with the solution \<^verbatim>\<open>x\<close> (of the shape of \<^verbatim>\<open>x0\<close>), the objective value
  \<^verbatim>\<open>fun\<close> and the flag \<^verbatim>\<open>success\<close>; a search that does not converge is reported
  by \<^verbatim>\<open>success = False\<close>, not by an exception. A constraint is the dictionary
  \<^verbatim>\<open>{'type': ..., 'fun': ...}\<close>; one of type \<^verbatim>\<open>'eq'\<close> asks its function to be zero
  (\<open>feasible\<close>).
\<close>

record constr =
  con_type :: string
  con_fun :: "fl list \<Rightarrow> fl"

record opt_result =
  res_x :: "fl list"
  res_fun :: fl
  res_success :: bool

type_synonym solver =
  "(fl list \<Rightarrow> fl) \<Rightarrow> fl list \<Rightarrow> (fl \<times> fl) list \<Rightarrow> constr list \<Rightarrow> opt_result"

definition feasible :: "constr list \<Rightarrow> fl list \<Rightarrow> bool" where
  "feasible cons w = list_all (\<lambda>c. con_fun c w = Fin 0) cons"

section \<open>Efficient frontier\<close>

text \<open>
  \<^verbatim>\<open>df.Return.min()\<close> and \<^verbatim>\<open>df.Return.max()\<close> of pandas skip NaN and give NaN
  when nothing is left.
\<close>

definition pd_min :: "fl list \<Rightarrow> fl" where
  "pd_min xs =
     (case filter (\<lambda>v. \<not> isnan v) xs of
        [] \<Rightarrow> NaN
      | v # vs \<Rightarrow> foldl (\<lambda>m x. if flt x m then x else m) v vs)"

definition pd_max :: "fl list \<Rightarrow> fl" where
  "pd_max xs =
     (case filter (\<lambda>v. \<not> isnan v) xs of
        [] \<Rightarrow> NaN
      | v # vs \<Rightarrow> foldl (\<lambda>m x. if flt m x then x else m) v vs)"

text \<open>
  \<^verbatim>\<open>np.linspace(start, stop, num)\<close> with \<^verbatim>\<open>endpoint=True\<close>:
  \<^verbatim>\<open>
  if num < 0: raise ValueError
  div = num - 1
  delta = stop - start
  y = arange(0, num)
  if div > 0:
      step = delta / div
      if step == 0:
          y /= div
          y = y * delta
      else:
          y = y * step
  else:
      y = y * delta
  y += start
  if num > 1:
      y[-1] = stop
  \<close>
\<close>

definition np_linspace :: "fl \<Rightarrow> fl \<Rightarrow> int \<Rightarrow> error + fl list" where
  "np_linspace start stop num =
     (if num < 0 then Inl ValueError
      else
        let n = nat num;
            dv = real_of_int (num - 1);
            delta = fsub stop start;
            y = map (\<lambda>k. Fin (real k)) [0..<n];
            y1 = (if 0 < dv then
                    (let step = fdiv delta (Fin dv)
                     in if step = Fin 0 then map (\<lambda>v. fmul (fdiv v (Fin dv)) delta) y
                        else map (\<lambda>v. fmul v step) y)
                  else map (\<lambda>v. fmul v delta) y);
            y2 = map (\<lambda>v. fadd v start) y1
        in Inr (if 1 < n then y2[n - 1 := stop] else y2))"

text \<open>
  \<^verbatim>\<open>
  def compute_frontier(df, n=30):
      frontier_ret = np.linspace(df.Return.min(), df.Return.max(), n)
      frontier_volatility = []
      cols = len(df.columns) - 3
      bounds = tuple((0, 1) for i in range(cols))
      init_guess = [1./cols for i in range(cols)]
      for possible_return in frontier_ret:
          cons = (
              {'type':'eq', 'fun': check_sum},
              {'type':'eq', 'fun': lambda w: get_return(df.attrs['mean_return'], w) - possible_return}
          )
          result = minimize(lambda w: get_volatility(df.attrs['log_return'], w), init_guess, bounds=bounds, constraints=cons)
          frontier_volatility.append(result['fun'])
      return pd.DataFrame({'Volatility': frontier_volatility, 'Return': frontier_ret})
  \<close>
  \<open>frontier_loop\<close> is the \<^verbatim>\<open>for\<close> loop; its last argument is the list
  \<^verbatim>\<open>frontier_volatility\<close> built so far.
\<close>

record frontier_df =
  fr_Volatility :: "fl list"
  fr_Return :: "fl list"

fun frontier_loop ::
    "solver \<Rightarrow> sample_df \<Rightarrow> fl list \<Rightarrow> (fl \<times> fl) list \<Rightarrow> fl list \<Rightarrow> fl list \<Rightarrow> fl list" where
  "frontier_loop minimize df init_guess bounds [] frontier_volatility = frontier_volatility"
| "frontier_loop minimize df init_guess bounds (possible_return # rest) frontier_volatility =
     (let cons = [\<lparr>con_type = ''eq'', con_fun = check_sum\<rparr>,
                  \<lparr>con_type = ''eq'',
                   con_fun = (\<lambda>w. fsub (get_return (sd_mean_return df) w) possible_return)\<rparr>];
          result = minimize (\<lambda>w. get_volatility (sd_log_return df) w) init_guess bounds cons
      in frontier_loop minimize df init_guess bounds rest
           (frontier_volatility @ [res_fun result]))"

definition compute_frontier :: "solver \<Rightarrow> sample_df \<Rightarrow> int \<Rightarrow> error + frontier_df" where
  "compute_frontier minimize df n =
     (case np_linspace (pd_min (sd_Return df)) (pd_max (sd_Return df)) n of
        Inl e \<Rightarrow> Inl e
      | Inr frontier_ret \<Rightarrow>
          let cols = length (sd_columns df) - 3;
              bounds = replicate cols (Fin 0, Fin 1);
              init_guess = replicate cols (fdiv (Fin 1) (Fin (real cols)))
          in Inr \<lparr>fr_Volatility = frontier_loop minimize df init_guess bounds frontier_ret [],
                  fr_Return = frontier_ret\<rparr>)"

section \<open>Closest allocation\<close>

text \<open>
  \<^verbatim>\<open>
  def minimize_difference(weights, des_vol, des_ret, log_ret, mean_ret):
      ret = get_return(mean_ret, weights)
      vol = get_volatility(log_ret, weights)
      return abs(des_ret-ret) + abs(des_vol-vol)
  \<close>
\<close>

definition minimize_difference ::
    "fl list \<Rightarrow> fl \<Rightarrow> fl \<Rightarrow> dataframe \<Rightarrow> fl list \<Rightarrow> fl" where
  "minimize_difference weights des_vol des_ret log_ret_a mean_ret =
     (let ret = get_return mean_ret weights;
          vol = get_volatility log_ret_a weights
      in fadd (fabs (fsub des_ret ret)) (fabs (fsub des_vol vol)))"

text \<open>
  \<^verbatim>\<open>vol or 0\<close>: Python takes the right operand when the left one is falsy, that is
  \<^verbatim>\<open>None\<close> or zero (NaN is truthy).
\<close>

definition py_or_0 :: "fl option \<Rightarrow> fl" where
  "py_or_0 v = (case v of None \<Rightarrow> Fin 0 | Some a \<Rightarrow> if a = Fin 0 then Fin 0 else a)"

text \<open>
  The tuple \<^verbatim>\<open>cons\<close> of \<^verbatim>\<open>find_best_allocation\<close>, for the values of
  \<^verbatim>\<open>vol\<close> and \<^verbatim>\<open>ret\<close> after \<^verbatim>\<open>vol = vol or 0\<close> and \<^verbatim>\<open>ret = ret or 0\<close>:
  \<^verbatim>\<open>
  cons = (
      {'type':'eq','fun': check_sum},
      {'type':'eq','fun': lambda w: get_return(mean_return, w) - ret},
      {'type':'eq','fun': lambda w: get_volatility(log_return, w) - vol}
  )
  \<close>
\<close>

definition find_best_allocation_cons ::
    "dataframe \<Rightarrow> fl list \<Rightarrow> fl \<Rightarrow> fl \<Rightarrow> constr list" where
  "find_best_allocation_cons log_return mean_return vol ret =
     [\<lparr>con_type = ''eq'', con_fun = check_sum\<rparr>,
      \<lparr>con_type = ''eq'', con_fun = (\<lambda>w. fsub (get_return mean_return w) ret)\<rparr>,
      \<lparr>con_type = ''eq'', con_fun = (\<lambda>w. fsub (get_volatility log_return w) vol)\<rparr>]"

text \<open>
  A pandas Series: its labels and its values. \<^verbatim>\<open>find_best_allocation\<close> returns the
  solver's weights followed by the two entries labelled \<^verbatim>\<open>Return\<close> and
  \<^verbatim>\<open>Volatility\<close>; the notebook reads the weights back as \<^verbatim>\<open>iloc[:-2]\<close>.
  The two metrics are read by position, which is the lookup by label as long as no asset
  bears one of the two labels.
\<close>

record series =
  ser_index :: "string list"
  ser_values :: "fl list"

definition ser_weights :: "series \<Rightarrow> fl list" where
  "ser_weights s = take (length (ser_values s) - 2) (ser_values s)"

definition ser_Return :: "series \<Rightarrow> fl" where
  "ser_Return s = ser_values s ! (length (ser_values s) - 2)"

definition ser_Volatility :: "series \<Rightarrow> fl" where
  "ser_Volatility s = ser_values s ! (length (ser_values s) - 1)"

text \<open>
  \<^verbatim>\<open>
  @pn.cache
  def find_best_allocation(log_return, vol, ret):
      cols = log_return.shape[1]
      vol = vol or 0
      ret = ret or 0
      mean_return = np.nanmean(log_return, axis=0)
      bounds = tuple((0, 1) for i in range(cols))
      init_guess = [1./cols for i in range(cols)]
      cons = (...)
      opt = minimize(
          minimize_difference, init_guess, args=(vol, ret, log_return, mean_return),
          bounds=bounds, constraints=cons
      )
      ret = get_return(mean_return, opt.x)
      vol = get_volatility(log_return, opt.x)
      return pd.Series(list(opt.x)+[ret, vol], index=list(log_return.columns)+['Return', 'Volatility'], name='Weight')
  \<close>
  \<^verbatim>\<open>pn.cache\<close> stores the value of the body under the arguments of the call and
  returns it again for the same arguments; the body is what every call returns.
\<close>

definition find_best_allocation ::
    "solver \<Rightarrow> dataframe \<Rightarrow> fl option \<Rightarrow> fl option \<Rightarrow> series" where
  "find_best_allocation minimize log_return vol ret =
     (let cols = ncols log_return;
          vol1 = py_or_0 vol;
          ret1 = py_or_0 ret;
          mean_return = np_nanmean log_return;
          bounds = replicate cols (Fin 0, Fin 1);
          init_guess = replicate cols (fdiv (Fin 1) (Fin (real cols)));
          cons = find_best_allocation_cons log_return mean_return vol1 ret1;
          opt = minimize (\<lambda>w. minimize_difference w vol1 ret1 log_return mean_return)
                  init_guess bounds cons;
          ret2 = get_return mean_return (res_x opt);
          vol2 = get_volatility log_return (res_x opt)
      in \<lparr>ser_index = df_columns log_return @ [''Return'', ''Volatility''],
          ser_values = res_x opt @ [ret2, vol2]\<rparr>)"

section \<open>Notions used by the properties\<close>

text \<open>
  The finite entries of a column, as real numbers: the valid return periods of an asset.
\<close>

fun fin_vals :: "fl list \<Rightarrow> real list" where
  "fin_vals [] = []"
| "fin_vals (Fin x # vs) = x # fin_vals vs"
| "fin_vals (_ # vs) = fin_vals vs"

text \<open>
  The sample variance in the specification's words: the squared deviations from the mean,
  summed and divided by the number of observations less one.
\<close>

definition spec_sample_variance :: "real list \<Rightarrow> real" where
  "spec_sample_variance xs =
     (let m = sum_list xs / real (length xs)
      in sum_list (map (\<lambda>x. (x - m)\<^sup>2) xs) / (real (length xs) - 1))"

text \<open>A solver that returns its initial guess and reports that it did not converge.\<close>

definition stalled_solver :: solver where
  "stalled_solver objective x0 bounds cons =
     \<lparr>res_x = x0, res_fun = objective x0, res_success = False\<rparr>"

section \<open>Auxiliary facts\<close>

subsection \<open>Finite arithmetic\<close>

lemma fsum_Nil [simp]: "fsum [] = Fin 0"
  by (simp add: fsum_def)

lemma fsum_Cons [simp]: "fsum (x # xs) = fadd x (fsum xs)"
  by (simp add: fsum_def)

lemma fsum_map_Fin: "fsum (map Fin xs) = Fin (sum_list xs)"
  by (induction xs) simp_all

lemma fsum_replicate_Fin: "fsum (replicate k (Fin c)) = Fin (real k * c)"
  by (induction k) (simp_all add: algebra_simps)

lemma is_fin_iff: "is_fin v \<longleftrightarrow> (\<exists>x. v = Fin x)"
  by (cases v) simp_all

lemma is_fin_fadd: "is_fin a \<Longrightarrow> is_fin b \<Longrightarrow> is_fin (fadd a b)"
  by (auto simp: is_fin_iff)

lemma fadd_NaN_right: "fadd a NaN = NaN"
  by (cases a) simp_all

lemma fsum_no_inf:
  "PInf \<notin> set vs \<Longrightarrow> NInf \<notin> set vs \<Longrightarrow> NaN \<notin> set vs \<Longrightarrow> is_fin (fsum vs)"
proof (induction vs)
  case Nil
  then show ?case by simp
next
  case (Cons v vs)
  then show ?case by (cases v) (auto simp: is_fin_iff)
qed

lemma fsum_PInf:
  "PInf \<in> set vs \<Longrightarrow> NInf \<notin> set vs \<Longrightarrow> NaN \<notin> set vs \<Longrightarrow> fsum vs = PInf"
proof (induction vs)
  case Nil
  then show ?case by simp
next
  case (Cons v vs)
  show ?case
  proof (cases "PInf \<in> set vs")
    case True
    with Cons have "fsum vs = PInf" by simp
    with Cons.prems show ?thesis by (cases v) simp_all
  next
    case False
    with Cons.prems have v: "v = PInf" and "is_fin (fsum vs)"
      using fsum_no_inf [of vs] by auto
    then show ?thesis by (auto simp: is_fin_iff)
  qed
qed

lemma fsum_NInf:
  "NInf \<in> set vs \<Longrightarrow> PInf \<notin> set vs \<Longrightarrow> NaN \<notin> set vs \<Longrightarrow> fsum vs = NInf"
proof (induction vs)
  case Nil
  then show ?case by simp
next
  case (Cons v vs)
  show ?case
  proof (cases "NInf \<in> set vs")
    case True
    with Cons have "fsum vs = NInf" by simp
    with Cons.prems show ?thesis by (cases v) simp_all
  next
    case False
    with Cons.prems have v: "v = NInf" and "is_fin (fsum vs)"
      using fsum_no_inf [of vs] by auto
    then show ?thesis by (auto simp: is_fin_iff)
  qed
qed

lemma fsum_both_inf:
  "PInf \<in> set vs \<Longrightarrow> NInf \<in> set vs \<Longrightarrow> fsum vs = NaN"
proof (induction vs)
  case Nil
  then show ?case by simp
next
  case (Cons v vs)
  show ?case
  proof (cases "PInf \<in> set vs \<and> NInf \<in> set vs")
    case True
    with Cons have "fsum vs = NaN" by simp
    then show ?thesis by (simp add: fadd_NaN_right)
  next
    case False
    show ?thesis
    proof (cases "NaN \<in> set vs")
      case True
      then have "fsum vs = NaN"
        by (induction vs) (auto simp: fadd_NaN_right)
      then show ?thesis by (simp add: fadd_NaN_right)
    next
      case nonan: False
      from False Cons.prems consider
        (p) "v = PInf" "NInf \<in> set vs" "PInf \<notin> set vs"
        | (n) "v = NInf" "PInf \<in> set vs" "NInf \<notin> set vs"
        by auto
      then show ?thesis
      proof cases
        case p
        then show ?thesis using fsum_NInf [of vs] nonan by simp
      next
        case n
        then show ?thesis using fsum_PInf [of vs] nonan by simp
      qed
    qed
  qed
qed

lemma set_filter_not_nan: "set (filter (\<lambda>v. \<not> isnan v) vs) = set vs - {NaN}"
proof -
  have "isnan v \<longleftrightarrow> v = NaN" for v by (cases v) simp_all
  then show ?thesis by auto
qed

lemma fle_trans: "fle a b \<Longrightarrow> fle b c \<Longrightarrow> fle a c"
  by (cases a; cases b; cases c) simp_all

lemma fle_refl: "\<not> isnan a \<Longrightarrow> fle a a"
  by (cases a) simp_all

lemma flt_imp_fle: "flt a b \<Longrightarrow> fle a b"
  by (cases a; cases b) simp_all

lemma flt_not_nan: "flt a b \<Longrightarrow> \<not> isnan a \<and> \<not> isnan b"
  by (cases a; cases b) simp_all

lemma fdiv_NaN_right: "fdiv a NaN = NaN"
  by (cases a) simp_all

lemma fdiv_by_zero: "fdiv r (Fin 0) = PInf \<or> fdiv r (Fin 0) = NInf \<or> fdiv r (Fin 0) = NaN"
  by (cases r) auto

lemma fsub_eq_zero_iff: "fsub a b = Fin 0 \<longleftrightarrow> (\<exists>x. a = Fin x \<and> b = Fin x)"
  by (cases a; cases b) (auto simp: fsub_def)

lemma check_sum_zero_iff: "check_sum w = Fin 0 \<longleftrightarrow> fsum w = Fin 1"
  by (auto simp: check_sum_def fsub_eq_zero_iff)

lemma map_Fin_fin_vals: "list_all is_fin vs \<Longrightarrow> map Fin (fin_vals vs) = vs"
proof (induction vs)
  case Nil
  then show ?case by simp
next
  case (Cons v vs)
  then show ?case by (cases v) simp_all
qed

lemma filter_not_nan:
  "\<forall>v\<in>set vs. isnan v \<or> is_fin v \<Longrightarrow> filter (\<lambda>v. \<not> isnan v) vs = map Fin (fin_vals vs)"
proof (induction vs)
  case Nil
  then show ?case by simp
next
  case (Cons v vs)
  then show ?case by (cases v) simp_all
qed

subsection \<open>Mean and covariance\<close>

lemma nanmean_nth:
  "j < ncols lr \<Longrightarrow>
   np_nanmean lr ! j =
     fdiv (fsum (filter (\<lambda>v. \<not> isnan v) (column lr j)))
          (Fin (real (length (filter (\<lambda>v. \<not> isnan v) (column lr j)))))"
  by (simp add: np_nanmean_def Let_def)

lemma nanmean_skips_nan:
  assumes "j < ncols lr" and "\<forall>v\<in>set (column lr j). isnan v \<or> is_fin v"
    and "fin_vals (column lr j) \<noteq> []"
  shows "np_nanmean lr ! j =
    Fin (sum_list (fin_vals (column lr j)) / real (length (fin_vals (column lr j))))"
  using assms by (simp add: nanmean_nth filter_not_nan fsum_map_Fin)

lemma nanmean_PInf:
  assumes "j < ncols lr" and "PInf \<in> set (column lr j)" and "NInf \<notin> set (column lr j)"
  shows "np_nanmean lr ! j = PInf"
proof -
  let ?vs = "filter (\<lambda>v. \<not> isnan v) (column lr j)"
  have "fsum ?vs = PInf"
    using assms by (intro fsum_PInf) (simp_all add: set_filter_not_nan)
  then show ?thesis
    using assms(1) by (simp add: nanmean_nth)
qed

lemma nanmean_NInf:
  assumes "j < ncols lr" and "NInf \<in> set (column lr j)" and "PInf \<notin> set (column lr j)"
  shows "np_nanmean lr ! j = NInf"
proof -
  let ?vs = "filter (\<lambda>v. \<not> isnan v) (column lr j)"
  have "fsum ?vs = NInf"
    using assms by (intro fsum_NInf) (simp_all add: set_filter_not_nan)
  then show ?thesis
    using assms(1) by (simp add: nanmean_nth)
qed

lemma nanmean_both_inf:
  assumes "j < ncols lr" and "PInf \<in> set (column lr j)" and "NInf \<in> set (column lr j)"
  shows "np_nanmean lr ! j = NaN"
proof -
  let ?vs = "filter (\<lambda>v. \<not> isnan v) (column lr j)"
  have "fsum ?vs = NaN"
    using assms by (intro fsum_both_inf) (simp_all add: set_filter_not_nan)
  then show ?thesis
    using assms(1) by (simp add: nanmean_nth)
qed

lemma nanmean_all_nan:
  assumes "j < ncols lr" and "list_all isnan (column lr j)"
  shows "np_nanmean lr ! j = NaN"
proof -
  have "filter (\<lambda>v. \<not> isnan v) (column lr j) = []"
    using assms(2) by (simp add: list_all_iff filter_empty_conv)
  then show ?thesis
    using assms(1) by (simp add: nanmean_nth)
qed

text \<open>
  \<^verbatim>\<open>np.cov\<close> skips no entry, \<^verbatim>\<open>DataFrame.cov\<close> leaves out the entries that are
  not finite: the two covariances of one frame with a NaN after the first row.
\<close>

lemma covariance_keeps_later_nan:
  "return_covariance \<lparr>df_columns = [''A'', ''B''],
       df_rows = [[NaN, NaN], [Fin 0, Fin 0], [NaN, Fin 0], [Fin 0, Fin 0]]\<rparr> =
     [[NaN, NaN], [NaN, Fin 0]] \<and>
   pd_cov \<lparr>df_columns = [''A'', ''B''],
       df_rows = [[NaN, NaN], [Fin 0, Fin 0], [NaN, Fin 0], [Fin 0, Fin 0]]\<rparr> =
     [[Fin 0, Fin 0], [Fin 0, Fin 0]]"
  by (simp add: return_covariance_def np_cov_def cov_core_def df_tail_def dot_def fsub_def
      pd_cov_def nancorr_entry_def ncols_def column_def Let_def)

lemma single_asset_return_covariance: "ncols lr = 1 \<Longrightarrow> return_covariance lr = [[Fin 252]]"
  by (simp add: return_covariance_def np_cov_def df_tail_def ncols_def)

lemma single_asset_np_cov:
  assumes "ncols lr = 1" and "df_rows lr = replicate k [Fin c]" and "2 \<le> k"
  shows "np_cov lr = Scalar (Fin 0)"
  using assms
  by (simp add: np_cov_def cov_core_def column_def fsum_replicate_Fin dot_def fsub_def
      zip_replicate)

lemma single_asset_volatility:
  assumes "ncols lr = 1" and "drop 1 (df_rows lr) = replicate k [Fin c]" and "2 \<le> k"
  shows "get_volatility lr [Fin x] = Fin 0"
proof -
  have "np_cov (df_tail lr) = Scalar (Fin 0)"
    using assms
    by (intro single_asset_np_cov [where k = k and c = c]) (simp_all add: df_tail_def ncols_def)
  then show ?thesis
    by (simp add: get_volatility_def dot_def)
qed

lemma single_asset_ret_vol_sr:
  assumes "ncols lr = 1" and "df_rows lr = [NaN] # replicate k [Fin c]" and "2 \<le> k"
  shows "get_ret_vol_sr lr [Fin x] =
           Inr [Fin (c * x * 252), Fin 0, fdiv (Fin (c * x * 252)) (Fin 0)]"
  using assms
  by (simp add: get_ret_vol_sr_def pd_mean_def np_nanmean_def pd_cov_def nancorr_entry_def
      column_def fsum_replicate_Fin dot_def matvec_def fsub_def zip_replicate Let_def)

subsection \<open>Normalised weights\<close>

lemma rebalance_Fin:
  "sum_list xs \<noteq> 0 \<Longrightarrow> rebalance (map Fin xs) = map (\<lambda>x. Fin (x / sum_list xs)) xs"
  by (simp add: rebalance_def fsum_map_Fin)

lemma sum_list_scaled: "sum_list (map (\<lambda>x. x / s) xs) = sum_list xs / (s::real)"
  by (induction xs) (simp_all add: add_divide_distrib)

lemma fsum_scaled: "fsum (map (\<lambda>x. Fin (x / s)) xs) = Fin (sum_list xs / s)"
  using fsum_map_Fin [of "map (\<lambda>x. x / s) xs"] by (simp add: sum_list_scaled comp_def)

lemma elem_le_sum_list:
  fixes xs :: "real list"
  assumes "\<forall>x\<in>set xs. 0 \<le> x" and "y \<in> set xs"
  shows "y \<le> sum_list xs"
  using assms
proof (induction xs)
  case Nil
  then show ?case by simp
next
  case (Cons x xs)
  have "0 \<le> sum_list xs"
    using Cons.prems by (intro sum_list_nonneg) simp
  with Cons show ?case by auto
qed

lemma sum_list_pos_if:
  fixes xs :: "real list"
  assumes "\<forall>x\<in>set xs. 0 \<le> x" and "y \<in> set xs" and "y \<noteq> 0"
  shows "0 < sum_list xs"
  using elem_le_sum_list [OF assms(1,2)] assms by force

lemma rebalance_simplex:
  fixes xs :: "real list"
  assumes nonneg: "\<forall>x\<in>set xs. 0 \<le> x" and y: "y \<in> set xs" "y \<noteq> 0"
  shows "fsum (rebalance (map Fin xs)) = Fin 1"
    and "list_all (\<lambda>w. fle (Fin 0) w \<and> fle w (Fin 1)) (rebalance (map Fin xs))"
proof -
  have pos: "0 < sum_list xs"
    using assms by (rule sum_list_pos_if)
  then have reb: "rebalance (map Fin xs) = map (\<lambda>x. Fin (x / sum_list xs)) xs"
    by (simp add: rebalance_Fin)
  show "fsum (rebalance (map Fin xs)) = Fin 1"
    using pos by (simp add: reb fsum_scaled)
  show "list_all (\<lambda>w. fle (Fin 0) w \<and> fle w (Fin 1)) (rebalance (map Fin xs))"
    using pos nonneg elem_le_sum_list [OF nonneg]
    by (simp add: reb list_all_iff)
qed

lemma sampler_row:
  assumes "compute_random_allocations rng lr n = Inr df" and "i < nat n"
  shows "sd_weights df ! i =
           rebalance (map Fin (map (\<lambda>j. rng (i * ncols lr + j)) [0..<ncols lr]))"
  using assms
  by (auto simp: compute_random_allocations_def Let_def np_random_random_def comp_def
      split: if_splits)

lemma sampler_sharpe:
  assumes "compute_random_allocations rng lr n = Inr df" and "i < nat n"
  shows "sd_Sharpe df ! i = fdiv (sd_Return df ! i) (sd_Volatility df ! i)"
  using assms
  by (auto simp: compute_random_allocations_def Let_def np_random_random_def split: if_splits)

subsection \<open>The return grid\<close>

lemma frontier_loop_eq:
  "frontier_loop minimize df init_guess bounds rets acc =
     acc @ map (\<lambda>r. res_fun (minimize (\<lambda>w. get_volatility (sd_log_return df) w) init_guess bounds
                   [\<lparr>con_type = ''eq'', con_fun = check_sum\<rparr>,
                    \<lparr>con_type = ''eq'',
                     con_fun = (\<lambda>w. fsub (get_return (sd_mean_return df) w) r)\<rparr>])) rets"
  by (induction rets arbitrary: acc) (simp_all add: Let_def)

lemma foldl_min_Fin:
  "\<exists>m. foldl (\<lambda>m x. if flt x m then x else m) (Fin a) (map Fin xs) = Fin m \<and> m \<le> a"
proof (induction xs arbitrary: a)
  case Nil
  then show ?case by simp
next
  case (Cons x xs)
  show ?case
  proof (cases "x < a")
    case True
    with Cons [of x] show ?thesis by auto
  next
    case False
    with Cons [of a] show ?thesis by auto
  qed
qed

lemma foldl_max_Fin:
  "\<exists>m. foldl (\<lambda>m x. if flt m x then x else m) (Fin a) (map Fin xs) = Fin m \<and> a \<le> m"
proof (induction xs arbitrary: a)
  case Nil
  then show ?case by simp
next
  case (Cons x xs)
  show ?case
  proof (cases "a < x")
    case True
    with Cons [of x] show ?thesis by auto
  next
    case False
    with Cons [of a] show ?thesis by auto
  qed
qed

lemma pd_min_max_Fin:
  assumes "vs \<noteq> []" and "list_all is_fin vs"
  shows "\<exists>lo hi. pd_min vs = Fin lo \<and> pd_max vs = Fin hi \<and> lo \<le> hi"
proof -
  have "vs = map Fin (fin_vals vs)"
    using assms(2) by (simp add: map_Fin_fin_vals)
  with assms(1) obtain a xs where vs: "vs = map Fin (a # xs)"
    by (cases "fin_vals vs") auto
  obtain lo where lo:
    "foldl (\<lambda>m x. if flt x m then x else m) (Fin a) (map Fin xs) = Fin lo" "lo \<le> a"
    using foldl_min_Fin by blast
  obtain hi where hi:
    "foldl (\<lambda>m x. if flt m x then x else m) (Fin a) (map Fin xs) = Fin hi" "a \<le> hi"
    using foldl_max_Fin by blast
  have nn: "filter (\<lambda>v. \<not> isnan v) (map Fin xs) = map Fin xs"
    by (induction xs) simp_all
  show ?thesis
    using lo hi by (auto simp: vs pd_min_def pd_max_def nn)
qed

lemma foldl_min_le:
  "\<not> isnan a \<Longrightarrow> fle (foldl (\<lambda>m x. if flt x m then x else m) a xs) a"
proof (induction xs arbitrary: a)
  case Nil
  then show ?case by (simp add: fle_refl)
next
  case (Cons x xs)
  show ?case
  proof (cases "flt x a")
    case True
    then have "\<not> isnan x" by (simp add: flt_not_nan)
    then have "fle (foldl (\<lambda>m x. if flt x m then x else m) x xs) x"
      by (rule Cons.IH)
    with True show ?thesis
      by (auto intro: fle_trans flt_imp_fle)
  next
    case False
    with Cons show ?thesis by simp
  qed
qed

lemma foldl_max_ge:
  "\<not> isnan a \<Longrightarrow> fle a (foldl (\<lambda>m x. if flt m x then x else m) a xs)"
proof (induction xs arbitrary: a)
  case Nil
  then show ?case by (simp add: fle_refl)
next
  case (Cons x xs)
  show ?case
  proof (cases "flt a x")
    case True
    then have "\<not> isnan x" by (simp add: flt_not_nan)
    then have "fle x (foldl (\<lambda>m x. if flt m x then x else m) x xs)"
      by (rule Cons.IH)
    with True show ?thesis
      by (auto intro: fle_trans flt_imp_fle)
  next
    case False
    with Cons show ?thesis by simp
  qed
qed

lemma pd_min_max_bounds:
  assumes "is_fin (pd_min vs)" and "is_fin (pd_max vs)"
  shows "\<exists>lo hi. pd_min vs = Fin lo \<and> pd_max vs = Fin hi \<and> lo \<le> hi"
proof (cases "filter (\<lambda>v. \<not> isnan v) vs")
  case Nil
  with assms(1) show ?thesis by (simp add: pd_min_def)
next
  case (Cons v fs)
  then have "v \<in> set (filter (\<lambda>v. \<not> isnan v) vs)" by simp
  then have v: "\<not> isnan v" by simp
  from assms obtain lo hi where lo: "pd_min vs = Fin lo" and hi: "pd_max vs = Fin hi"
    by (auto simp: is_fin_iff)
  have "fle (Fin lo) v"
    using foldl_min_le [OF v, of fs] lo Cons by (simp add: pd_min_def)
  moreover have "fle v (Fin hi)"
    using foldl_max_ge [OF v, of fs] hi Cons by (simp add: pd_max_def)
  ultimately have "lo \<le> hi"
    by (cases v) simp_all
  with lo hi show ?thesis by simp
qed

lemma linspace_length:
  "0 \<le> n \<Longrightarrow> \<exists>ys. np_linspace start stop n = Inr ys \<and> length ys = nat n"
  by (simp add: np_linspace_def Let_def)

lemma linspace_Fin_nat:
  "np_linspace (Fin lo) (Fin hi) (int m) =
     Inr (map (\<lambda>k. Fin (lo + real k * (hi - lo) / (real m - 1))) [0..<m])"
proof (cases "m \<le> 1")
  case True
  then have "m = 0 \<or> m = 1" by auto
  then show ?thesis
    by (auto simp: np_linspace_def fsub_def)
next
  case False
  let ?f = "\<lambda>k. Fin (lo + real k * (hi - lo) / (real m - 1))"
  from False have dv: "0 < real m - 1" by simp
  have last: "?f (m - 1) = Fin hi"
    using False by (simp add: of_nat_diff)
  have "(map ?f [0..<m]) ! (m - 1) = Fin hi"
    using False last by simp
  then have upd: "(map ?f [0..<m])[m - 1 := Fin hi] = map ?f [0..<m]"
    by (metis list_update_id)
  have y2a: "map (\<lambda>v. fadd v (Fin lo))
               (map (\<lambda>v. fmul (fdiv v (Fin (real m - 1))) (Fin (hi - lo)))
                  (map (\<lambda>k. Fin (real k)) [0..<m])) = map ?f [0..<m]"
    using dv by (simp add: algebra_simps)
  have y2b: "map (\<lambda>v. fadd v (Fin lo))
               (map (\<lambda>v. fmul v (Fin ((hi - lo) / (real m - 1))))
                  (map (\<lambda>k. Fin (real k)) [0..<m])) = map ?f [0..<m]"
    by (simp add: algebra_simps)
  have delta: "fsub (Fin hi) (Fin lo) = Fin (hi - lo)"
    by (simp add: fsub_def)
  have step: "fdiv (Fin (hi - lo)) (Fin (real m - 1)) = Fin ((hi - lo) / (real m - 1))"
    using dv by simp
  have dv': "real_of_int (int m - 1) = real m - 1"
    by simp
  show ?thesis
    unfolding np_linspace_def Let_def delta dv' step nat_int
    using False dv by (simp only: y2a y2b upd if_True if_False split: if_splits) simp
qed

lemma linspace_Fin:
  assumes "0 \<le> n"
  shows "np_linspace (Fin lo) (Fin hi) n =
           Inr (map (\<lambda>k. Fin (lo + real k * (hi - lo) / (real (nat n) - 1))) [0..<nat n])"
  using linspace_Fin_nat [of lo hi "nat n"] assms by simp

lemma linspace_sorted:
  assumes "0 \<le> n" and "lo \<le> hi" and "np_linspace (Fin lo) (Fin hi) n = Inr ys"
  shows "sorted_wrt fle ys"
proof -
  let ?g = "\<lambda>k. lo + real k * (hi - lo) / (real (nat n) - 1)"
  have ys: "ys = map (\<lambda>k. Fin (?g k)) [0..<nat n]"
    using assms(3) linspace_Fin [OF assms(1), of lo hi] by simp
  have mono: "?g a \<le> ?g b" if "a < b" "b < nat n" for a b
  proof -
    have "0 \<le> (hi - lo) / (real (nat n) - 1)"
      using that assms(2) by (intro divide_nonneg_nonneg) auto
    then have "real a * ((hi - lo) / (real (nat n) - 1)) \<le> real b * ((hi - lo) / (real (nat n) - 1))"
      using that by (intro mult_right_mono) auto
    then show ?thesis by simp
  qed
  have "sorted_wrt (\<lambda>a b. fle (Fin (?g a)) (Fin (?g b))) [0..<nat n]"
    unfolding sorted_wrt_iff_nth_less using mono by simp
  then show ?thesis
    by (simp add: ys sorted_wrt_map)
qed

lemma linspace_first_nan:
  assumes "2 \<le> n" and "\<not> (is_fin start \<and> is_fin stop)"
    and "np_linspace start stop n = Inr ys"
  shows "ys ! 0 = NaN"
proof -
  define m where "m = nat n - 2"
  have n: "n = int (Suc (Suc m))"
    using assms(1) by (simp add: m_def)
  have dv: "0 < real m + 1"
    by simp
  define step where "step = fdiv (fsub stop start) (Fin (real m + 1))"
  have step_nf: "\<not> is_fin step"
    using assms(2) dv unfolding step_def fsub_def
    by (cases start; cases stop) (simp_all split: if_splits)
  then have s0: "step \<noteq> Fin 0" and m0: "fmul (Fin 0) step = NaN"
    by (cases step; simp)+
  have dv': "real_of_int (int (Suc (Suc m)) - 1) = real m + 1"
    by simp
  from assms(3) have "np_linspace start stop (int (Suc (Suc m))) = Inr ys"
    using n by simp
  then have ys: "ys = (map (\<lambda>v. fadd v start) (map (\<lambda>v. fmul v step)
                  (map (\<lambda>k. Fin (real k)) [0..<Suc (Suc m)])))[Suc m := stop]"
    unfolding np_linspace_def Let_def nat_int dv' step_def [symmetric]
    using s0 by (simp del: upt_Suc map_map)
  show ?thesis
    unfolding ys by (simp add: upt_conv_Cons m0 del: upt_Suc)
qed

lemma linspace_unsorted:
  assumes "2 \<le> n" and "\<not> (is_fin start \<and> is_fin stop)"
    and "np_linspace start stop n = Inr ys"
  shows "\<not> sorted_wrt fle ys"
proof
  assume s: "sorted_wrt fle ys"
  have len: "length ys = nat n"
    using assms(1,3) linspace_length [of n start stop] by auto
  then have "fle (ys ! 0) (ys ! 1)"
    using sorted_wrt_nth_less [OF s, of 0 1] assms(1) by simp
  then show False
    by (simp add: linspace_first_nan [OF assms])
qed

section \<open>Properties\<close>

subsection \<open>Missing values in the estimator\<close>

text \<open>
  Claim C1, as the code has it, for the mean returns, which
  \<^verbatim>\<open>compute_random_allocations\<close> takes from \<^verbatim>\<open>np.nanmean\<close>. The mean return of
  an asset leaves out its NaN entries and nothing else. With finite or NaN entries, at
  least one of them finite, it is the sum of the finite entries divided by their number
  (a NaN is not counted as zero), hence finite; with NaN entries only it is NaN; an
  infinite entry stays in the sum, and the mean is that infinity, or NaN when both
  infinities occur.
\<close>

theorem estimator_missing_values:
  "(compute_random_allocations rng lr n = Inr df \<longrightarrow> sd_mean_return df = np_nanmean lr) \<and>
   (j < ncols lr \<and> list_all (\<lambda>v. isnan v \<or> is_fin v) (column lr j) \<and>
    fin_vals (column lr j) \<noteq> [] \<longrightarrow>
      np_nanmean lr ! j =
        Fin (sum_list (fin_vals (column lr j)) / real (length (fin_vals (column lr j))))) \<and>
   (j < ncols lr \<and> list_all isnan (column lr j) \<longrightarrow> np_nanmean lr ! j = NaN) \<and>
   (j < ncols lr \<and> PInf \<in> set (column lr j) \<and> NInf \<notin> set (column lr j) \<longrightarrow>
      np_nanmean lr ! j = PInf) \<and>
   (j < ncols lr \<and> NInf \<in> set (column lr j) \<and> PInf \<notin> set (column lr j) \<longrightarrow>
      np_nanmean lr ! j = NInf) \<and>
   (j < ncols lr \<and> PInf \<in> set (column lr j) \<and> NInf \<in> set (column lr j) \<longrightarrow>
      np_nanmean lr ! j = NaN)"
proof (intro conjI impI)
  assume "compute_random_allocations rng lr n = Inr df"
  then show "sd_mean_return df = np_nanmean lr"
    by (auto simp: compute_random_allocations_def Let_def split: if_splits)
next
  assume "j < ncols lr \<and> list_all (\<lambda>v. isnan v \<or> is_fin v) (column lr j) \<and>
          fin_vals (column lr j) \<noteq> []"
  then show "np_nanmean lr ! j =
      Fin (sum_list (fin_vals (column lr j)) / real (length (fin_vals (column lr j))))"
    by (intro nanmean_skips_nan) (simp_all add: list_all_iff)
next
  assume "j < ncols lr \<and> list_all isnan (column lr j)"
  then show "np_nanmean lr ! j = NaN"
    by (simp add: nanmean_all_nan)
next
  assume "j < ncols lr \<and> PInf \<in> set (column lr j) \<and> NInf \<notin> set (column lr j)"
  then show "np_nanmean lr ! j = PInf"
    by (simp add: nanmean_PInf)
next
  assume "j < ncols lr \<and> NInf \<in> set (column lr j) \<and> PInf \<notin> set (column lr j)"
  then show "np_nanmean lr ! j = NInf"
    by (simp add: nanmean_NInf)
next
  assume "j < ncols lr \<and> PInf \<in> set (column lr j) \<and> NInf \<in> set (column lr j)"
  then show "np_nanmean lr ! j = NaN"
    by (simp add: nanmean_both_inf)
qed

text \<open>
  Three assets. The first has the log returns 1, NaN and 3 after the first row: its mean
  is (1 + 3) / 2 = 2, not 4 / 3. The second has \<open>-\<infinity>\<close>, 4 and 6: its mean is
  \<open>-\<infinity>\<close>. The third has NaN only: its mean is NaN.
\<close>

theorem estimator_missing_values_witness:
  "np_nanmean \<lparr>df_columns = [''A'', ''B'', ''C''],
               df_rows = [[NaN, NaN, NaN], [Fin 1, NInf, NaN], [NaN, Fin 4, NaN],
                          [Fin 3, Fin 6, NaN]]\<rparr> ! 0 = Fin 2 \<and>
   np_nanmean \<lparr>df_columns = [''A'', ''B'', ''C''],
               df_rows = [[NaN, NaN, NaN], [Fin 1, NInf, NaN], [NaN, Fin 4, NaN],
                          [Fin 3, Fin 6, NaN]]\<rparr> ! 1 = NInf \<and>
   np_nanmean \<lparr>df_columns = [''A'', ''B'', ''C''],
               df_rows = [[NaN, NaN, NaN], [Fin 1, NInf, NaN], [NaN, Fin 4, NaN],
                          [Fin 3, Fin 6, NaN]]\<rparr> ! 2 = NaN"
proof -
  let ?lr = "\<lparr>df_columns = [''A'', ''B'', ''C''],
               df_rows = [[NaN, NaN, NaN], [Fin 1, NInf, NaN], [NaN, Fin 4, NaN],
                          [Fin 3, Fin 6, NaN]]\<rparr>"
  have "np_nanmean ?lr ! 0 = Fin 2"
    using estimator_missing_values [of _ ?lr _ _ 0] by (simp add: ncols_def column_def)
  moreover have "np_nanmean ?lr ! 1 = NInf"
    using estimator_missing_values [of _ ?lr _ _ 1] by (simp add: ncols_def column_def)
  moreover have "np_nanmean ?lr ! 2 = NaN"
    using estimator_missing_values [of _ ?lr _ _ 2] by (simp add: ncols_def column_def)
  ultimately show ?thesis
    by simp
qed

text \<open>
  The prices 1, 0, 1, 1 of one asset give the log returns NaN, \<open>-\<infinity>\<close>,
  \<open>+\<infinity>\<close> and 0: the infinite entries are not left out, and the mean is NaN
  although the last period is valid.
\<close>

theorem estimator_keeps_nonfinite:
  "np_nanmean (log_ret \<lparr>df_columns = [''A''],
                        df_rows = [[Fin 1], [Fin 0], [Fin 1], [Fin 1]]\<rparr>) = [NaN]"
  by (simp add: np_nanmean_def log_ret_def shift1_def ncols_def column_def)

subsection \<open>Covariance of a single asset\<close>

text \<open>
  Claim C2, at a concrete input: one asset with the log returns 0 and 2 after the first
  row. The sample variance is 2, \<^verbatim>\<open>np.cov(...) * 252\<close> is the 0-dimensional value
  504 = 252 * variance, and \<^verbatim>\<open>compute_random_allocations\<close> replaces it by the constant
  matrix \<^verbatim>\<open>[[252.]]\<close>; \<^verbatim>\<open>get_volatility\<close> keeps 504 for the same frame.
\<close>

theorem single_asset_covariance_constant:
  "nd_scale (np_cov (df_tail \<lparr>df_columns = [''A''], df_rows = [[NaN], [Fin 0], [Fin 2]]\<rparr>))
     (Fin 252) = Scalar (Fin (252 * spec_sample_variance [0, 2])) \<and>
   252 * spec_sample_variance [0, 2] = 504 \<and>
   return_covariance \<lparr>df_columns = [''A''], df_rows = [[NaN], [Fin 0], [Fin 2]]\<rparr> =
     [[Fin 252]] \<and>
   get_volatility \<lparr>df_columns = [''A''], df_rows = [[NaN], [Fin 0], [Fin 2]]\<rparr> [Fin 1] =
     Fin (sqrt 504)"
  by (simp add: return_covariance_def get_volatility_def np_cov_def cov_core_def df_tail_def
      ncols_def column_def dot_def fsub_def spec_sample_variance_def)

subsection \<open>Sampled weights\<close>

text \<open>
  Claim C3, as the code has it: a row of draws between 0 and 1 that are not all zero,
  divided by its own sum, has weights of sum exactly 1 (so within any tolerance), each
  between 0 and 1. So has every portfolio of \<^verbatim>\<open>compute_random_allocations\<close> whose
  draws are not all zero, when every draw of the generator lies between 0 and 1; it has one
  weight per asset.
\<close>

theorem sampler_weights_normalised:
  "(list_all (\<lambda>x. 0 \<le> x \<and> x \<le> 1) xs \<and> list_ex (\<lambda>x. x \<noteq> 0) xs \<longrightarrow>
      fsum (rebalance (map Fin xs)) = Fin 1 \<and>
      list_all (\<lambda>w. fle (Fin 0) w \<and> fle w (Fin 1)) (rebalance (map Fin xs))) \<and>
   ((\<forall>k. 0 \<le> rng k \<and> rng k \<le> 1) \<and> compute_random_allocations rng lr n = Inr df \<and>
    i < nat n \<and> (\<exists>j<ncols lr. rng (i * ncols lr + j) \<noteq> 0) \<longrightarrow>
      fsum (sd_weights df ! i) = Fin 1 \<and>
      list_all (\<lambda>w. fle (Fin 0) w \<and> fle w (Fin 1)) (sd_weights df ! i) \<and>
      length (sd_weights df ! i) = ncols lr)"
proof (intro conjI impI)
  assume a: "list_all (\<lambda>x. 0 \<le> x \<and> x \<le> 1) xs \<and> list_ex (\<lambda>x. x \<noteq> 0) xs"
  then obtain y where y: "y \<in> set xs" "y \<noteq> 0"
    by (auto simp: list_ex_iff)
  from a have nonneg: "\<forall>x\<in>set xs. 0 \<le> x"
    by (simp add: list_all_iff)
  show "fsum (rebalance (map Fin xs)) = Fin 1"
    and "list_all (\<lambda>w. fle (Fin 0) w \<and> fle w (Fin 1)) (rebalance (map Fin xs))"
    using rebalance_simplex [OF nonneg y] by simp_all
next
  assume a: "(\<forall>k. 0 \<le> rng k \<and> rng k \<le> 1) \<and> compute_random_allocations rng lr n = Inr df \<and>
    i < nat n \<and> (\<exists>j<ncols lr. rng (i * ncols lr + j) \<noteq> 0)"
  let ?xs = "map (\<lambda>j. rng (i * ncols lr + j)) [0..<ncols lr]"
  have row: "sd_weights df ! i = rebalance (map Fin ?xs)"
    using a sampler_row [of rng lr n df i] by simp
  have nonneg: "\<forall>x\<in>set ?xs. 0 \<le> x"
    using a by auto
  from a obtain j where "j < ncols lr" and "rng (i * ncols lr + j) \<noteq> 0"
    by blast
  then have y: "rng (i * ncols lr + j) \<in> set ?xs" "rng (i * ncols lr + j) \<noteq> 0"
    by auto
  show "fsum (sd_weights df ! i) = Fin 1"
    and "list_all (\<lambda>w. fle (Fin 0) w \<and> fle w (Fin 1)) (sd_weights df ! i)"
    using rebalance_simplex [OF nonneg y] by (simp_all add: row)
  show "length (sd_weights df ! i) = ncols lr"
    by (simp add: row rebalance_def)
qed

text \<open>
  One portfolio over two assets, both draws 1/2: the weights are 1/2 and 1/2. The draws
  1/4, 3/4, 1 and 0 of a single run over four assets: the weights are 1/8, 3/8, 1/2 and 0.
\<close>

theorem sampler_weights_witness:
  "(\<exists>df. compute_random_allocations (\<lambda>k. 1 / 2)
          \<lparr>df_columns = [''A'', ''B''],
           df_rows = [[NaN, NaN], [Fin 0, Fin 0], [Fin 0, Fin 0]]\<rparr> 1 = Inr df \<and>
        sd_weights df = [[Fin (1 / 2), Fin (1 / 2)]] \<and>
        fsum (sd_weights df ! 0) = Fin 1 \<and>
        list_all (\<lambda>w. fle (Fin 0) w \<and> fle w (Fin 1)) (sd_weights df ! 0)) \<and>
   rebalance (map Fin [1 / 4, 3 / 4, 1, 0]) = [Fin (1 / 8), Fin (3 / 8), Fin (1 / 2), Fin 0] \<and>
   fsum (rebalance (map Fin [1 / 4, 3 / 4, 1, 0])) = Fin 1"
proof -
  let ?lr = "\<lparr>df_columns = [''A'', ''B''],
              df_rows = [[NaN, NaN], [Fin 0, Fin 0], [Fin 0, Fin 0]]\<rparr>"
  obtain df where df: "compute_random_allocations (\<lambda>k. 1 / 2) ?lr 1 = Inr df"
    by (simp add: compute_random_allocations_def Let_def)
  have w: "sd_weights df = [[Fin (1 / 2), Fin (1 / 2)]]"
    using df by (auto simp: compute_random_allocations_def Let_def np_random_random_def
        rebalance_def ncols_def)
  have "\<exists>j<ncols ?lr. (1::real) / 2 \<noteq> 0" by (auto simp: ncols_def)
  then have "fsum (sd_weights df ! 0) = Fin 1 \<and>
      list_all (\<lambda>w. fle (Fin 0) w \<and> fle w (Fin 1)) (sd_weights df ! 0)"
    using sampler_weights_normalised [of "[]" "\<lambda>k. 1 / 2" ?lr 1 df 0] df by simp
  moreover have "rebalance (map Fin [1 / 4, 3 / 4, 1, 0]) =
      [Fin (1 / 8), Fin (3 / 8), Fin (1 / 2), Fin 0]"
    by (simp add: rebalance_def)
  moreover have "fsum (rebalance (map Fin [1 / 4, 3 / 4, 1, 0])) = Fin 1"
    using sampler_weights_normalised [of "[1 / 4, 3 / 4, 1, 0]"] by simp
  ultimately show ?thesis
    using df w by simp
qed

text \<open>
  A portfolio whose draws are all 0.0 is divided by the sum 0: its weights are NaN, neither
  between 0 and 1 nor of sum 1.
\<close>

theorem sampler_zero_draw:
  "compute_random_allocations (\<lambda>k. 0)
     \<lparr>df_columns = [''A'', ''B''],
      df_rows = [[NaN, NaN], [Fin 0, Fin 0], [Fin 0, Fin 0]]\<rparr> 1 =
   Inr \<lparr>sd_weights = [[NaN, NaN]], sd_Return = [NaN], sd_Volatility = [NaN], sd_Sharpe = [NaN],
        sd_mean_return = [Fin 0, Fin 0],
        sd_log_return =
          \<lparr>df_columns = [''A'', ''B''],
           df_rows = [[NaN, NaN], [Fin 0, Fin 0], [Fin 0, Fin 0]]\<rparr>\<rparr>"
  by (simp add: compute_random_allocations_def Let_def np_random_random_def np_nanmean_def
      ncols_def column_def rebalance_def return_covariance_def np_cov_def cov_core_def
      df_tail_def dot_def matvec_def fsub_def)

subsection \<open>The frontier\<close>

text \<open>
  Claim C4, as the code has it: for every sample frame, every solver and every point count
  \<open>n\<close> of at least 2, \<^verbatim>\<open>compute_frontier\<close> returns a frame of exactly \<open>n\<close> rows;
  its \<^verbatim>\<open>Return\<close> column is the grid of \<^verbatim>\<open>np.linspace\<close> between the least and
  the greatest sampled return; the volatility of every row is the objective value the
  solver returned for that target, whatever its \<^verbatim>\<open>success\<close> flag says, so no point
  is dropped. The targets ascend exactly when the least and the greatest sampled return
  (NaN skipped) are finite numbers, as they are for a sample of finite returns with at
  least one row; otherwise the grid begins with NaN.
\<close>

theorem frontier_complete_ordered:
  assumes "2 \<le> n"
  shows "\<exists>fr. compute_frontier minimize df n = Inr fr \<and>
           length (fr_Return fr) = nat n \<and> length (fr_Volatility fr) = nat n \<and>
           np_linspace (pd_min (sd_Return df)) (pd_max (sd_Return df)) n = Inr (fr_Return fr) \<and>
           (\<forall>i<nat n. fr_Volatility fr ! i =
              res_fun (minimize (\<lambda>w. get_volatility (sd_log_return df) w)
                (replicate (ncols (sd_log_return df))
                   (fdiv (Fin 1) (Fin (real (ncols (sd_log_return df))))))
                (replicate (ncols (sd_log_return df)) (Fin 0, Fin 1))
                [\<lparr>con_type = ''eq'', con_fun = check_sum\<rparr>,
                 \<lparr>con_type = ''eq'',
                  con_fun = (\<lambda>w. fsub (get_return (sd_mean_return df) w) (fr_Return fr ! i))\<rparr>])) \<and>
           (sorted_wrt fle (fr_Return fr) \<longleftrightarrow>
              is_fin (pd_min (sd_Return df)) \<and> is_fin (pd_max (sd_Return df))) \<and>
           (sd_Return df \<noteq> [] \<and> list_all is_fin (sd_Return df) \<longrightarrow>
              sorted_wrt fle (fr_Return fr))"
proof -
  from assms have n0: "0 \<le> n" by simp
  obtain ys where ys: "np_linspace (pd_min (sd_Return df)) (pd_max (sd_Return df)) n = Inr ys"
    and len: "length ys = nat n"
    using linspace_length [OF n0] by blast
  have cols: "length (sd_columns df) - 3 = ncols (sd_log_return df)"
    by (simp add: sd_columns_def ncols_def)
  let ?fr = "\<lparr>fr_Volatility =
                 frontier_loop minimize df
                   (replicate (ncols (sd_log_return df))
                      (fdiv (Fin 1) (Fin (real (ncols (sd_log_return df))))))
                   (replicate (ncols (sd_log_return df)) (Fin 0, Fin 1)) ys [],
               fr_Return = ys\<rparr>"
  have fr: "compute_frontier minimize df n = Inr ?fr"
    by (simp add: compute_frontier_def ys cols Let_def)
  have sorted: "sorted_wrt fle ys"
    if finite: "is_fin (pd_min (sd_Return df)) \<and> is_fin (pd_max (sd_Return df))"
  proof -
    obtain lo hi where "pd_min (sd_Return df) = Fin lo" "pd_max (sd_Return df) = Fin hi" "lo \<le> hi"
      using pd_min_max_bounds [of "sd_Return df"] finite by blast
    with ys show ?thesis
      using linspace_sorted [OF n0, of lo hi ys] by simp
  qed
  have unsorted: "\<not> sorted_wrt fle ys"
    if "\<not> (is_fin (pd_min (sd_Return df)) \<and> is_fin (pd_max (sd_Return df)))"
    using linspace_unsorted [OF assms that ys] .
  have iff: "sorted_wrt fle ys \<longleftrightarrow>
      is_fin (pd_min (sd_Return df)) \<and> is_fin (pd_max (sd_Return df))"
    using sorted unsorted by blast
  have fin: "is_fin (pd_min (sd_Return df)) \<and> is_fin (pd_max (sd_Return df))"
    if ne: "sd_Return df \<noteq> []" and f: "list_all is_fin (sd_Return df)"
    using pd_min_max_Fin [OF ne f] by auto
  show ?thesis
    using fr ys len iff fin by (simp add: frontier_loop_eq)
qed

text \<open>
  Two targets over one asset with a solver that never converges: both points are there,
  with the targets 0 and 1 in ascending order.
\<close>

theorem frontier_complete_witness:
  "\<exists>fr. compute_frontier stalled_solver
          \<lparr>sd_weights = [[Fin 1], [Fin 1]], sd_Return = [Fin 1, Fin 0],
           sd_Volatility = [Fin 0, Fin 0], sd_Sharpe = [PInf, NaN], sd_mean_return = [Fin 1],
           sd_log_return = \<lparr>df_columns = [''A''], df_rows = [[NaN], [Fin 1], [Fin 1]]\<rparr>\<rparr> 2
          = Inr fr \<and>
        fr_Return fr = [Fin 0, Fin 1] \<and> length (fr_Volatility fr) = 2 \<and>
        sorted_wrt fle (fr_Return fr)"
proof -
  let ?df = "\<lparr>sd_weights = [[Fin 1], [Fin 1]], sd_Return = [Fin 1, Fin 0],
           sd_Volatility = [Fin 0, Fin 0], sd_Sharpe = [PInf, NaN], sd_mean_return = [Fin 1],
           sd_log_return = \<lparr>df_columns = [''A''], df_rows = [[NaN], [Fin 1], [Fin 1]]\<rparr>\<rparr>"
  have "np_linspace (pd_min (sd_Return ?df)) (pd_max (sd_Return ?df)) 2 = Inr [Fin 0, Fin 1]"
    by (simp add: np_linspace_def pd_min_def pd_max_def fsub_def Let_def numeral_2_eq_2)
  moreover have "is_fin (pd_min (sd_Return ?df)) \<and> is_fin (pd_max (sd_Return ?df))"
    by (simp add: pd_min_def pd_max_def)
  ultimately show ?thesis
    using frontier_complete_ordered [of 2 stalled_solver ?df] by auto
qed

text \<open>
  One asset with the prices 1, 0, 1, 1: the sample of one portfolio has the return NaN, and
  the grid of two targets over it is NaN twice, which is not an ascending order.
\<close>

theorem frontier_nan_grid:
  "compute_random_allocations (\<lambda>k. 1 / 2)
     (log_ret \<lparr>df_columns = [''A''], df_rows = [[Fin 1], [Fin 0], [Fin 1], [Fin 1]]\<rparr>) 1 =
   Inr \<lparr>sd_weights = [[Fin 1]], sd_Return = [NaN], sd_Volatility = [Fin (sqrt 252)],
        sd_Sharpe = [NaN], sd_mean_return = [NaN],
        sd_log_return = \<lparr>df_columns = [''A''], df_rows = [[NaN], [NInf], [PInf], [Fin 0]]\<rparr>\<rparr> \<and>
   compute_frontier stalled_solver
     \<lparr>sd_weights = [[Fin 1]], sd_Return = [NaN], sd_Volatility = [Fin (sqrt 252)],
      sd_Sharpe = [NaN], sd_mean_return = [NaN],
      sd_log_return = \<lparr>df_columns = [''A''], df_rows = [[NaN], [NInf], [PInf], [Fin 0]]\<rparr>\<rparr> 2 =
   Inr \<lparr>fr_Volatility = [NaN, NaN], fr_Return = [NaN, NaN]\<rparr> \<and>
   \<not> sorted_wrt fle [NaN, NaN]"
proof (intro conjI)
  show "compute_random_allocations (\<lambda>k. 1 / 2)
     (log_ret \<lparr>df_columns = [''A''], df_rows = [[Fin 1], [Fin 0], [Fin 1], [Fin 1]]\<rparr>) 1 =
   Inr \<lparr>sd_weights = [[Fin 1]], sd_Return = [NaN], sd_Volatility = [Fin (sqrt 252)],
        sd_Sharpe = [NaN], sd_mean_return = [NaN],
        sd_log_return = \<lparr>df_columns = [''A''], df_rows = [[NaN], [NInf], [PInf], [Fin 0]]\<rparr>\<rparr>"
    by (simp add: compute_random_allocations_def Let_def np_random_random_def np_nanmean_def
        log_ret_def shift1_def ncols_def column_def rebalance_def return_covariance_def
        np_cov_def cov_core_def df_tail_def dot_def matvec_def)
  show "compute_frontier stalled_solver
     \<lparr>sd_weights = [[Fin 1]], sd_Return = [NaN], sd_Volatility = [Fin (sqrt 252)],
      sd_Sharpe = [NaN], sd_mean_return = [NaN],
      sd_log_return = \<lparr>df_columns = [''A''], df_rows = [[NaN], [NInf], [PInf], [Fin 0]]\<rparr>\<rparr> 2 =
   Inr \<lparr>fr_Volatility = [NaN, NaN], fr_Return = [NaN, NaN]\<rparr>"
    by (simp add: compute_frontier_def np_linspace_def pd_min_def pd_max_def fsub_def Let_def
        numeral_2_eq_2 sd_columns_def stalled_solver_def get_volatility_def np_cov_def
        cov_core_def df_tail_def ncols_def column_def dot_def)
  show "\<not> sorted_wrt fle [NaN, NaN]"
    by simp
qed

subsection \<open>Constraints of the closest allocation\<close>

text \<open>
  Claim C5, as the code has it: whatever the desired volatility and return, absent or
  zero included, \<^verbatim>\<open>find_best_allocation\<close> calls the solver with the objective
  \<^verbatim>\<open>minimize_difference\<close> and with the same three equality constraints, the desired
  values read through \<^verbatim>\<open>or 0\<close>: a weight vector satisfies them exactly when its sum
  is 1, its return is the desired return and its volatility the desired volatility. There
  is no form of the call with the sum constraint alone.
\<close>

theorem closest_always_pinned:
  "ser_weights (find_best_allocation minimize lr vol ret) =
     res_x (minimize (\<lambda>w. minimize_difference w (py_or_0 vol) (py_or_0 ret) lr (np_nanmean lr))
              (replicate (ncols lr) (fdiv (Fin 1) (Fin (real (ncols lr)))))
              (replicate (ncols lr) (Fin 0, Fin 1))
              (find_best_allocation_cons lr (np_nanmean lr) (py_or_0 vol) (py_or_0 ret))) \<and>
   map con_type (find_best_allocation_cons lr (np_nanmean lr) (py_or_0 vol) (py_or_0 ret)) =
     [''eq'', ''eq'', ''eq''] \<and>
   feasible (find_best_allocation_cons lr (np_nanmean lr) (py_or_0 vol) (py_or_0 ret)) w =
     (fsum w = Fin 1 \<and>
      is_fin (py_or_0 ret) \<and> get_return (np_nanmean lr) w = py_or_0 ret \<and>
      is_fin (py_or_0 vol) \<and> get_volatility lr w = py_or_0 vol)"
proof (intro conjI)
  show "ser_weights (find_best_allocation minimize lr vol ret) =
     res_x (minimize (\<lambda>w. minimize_difference w (py_or_0 vol) (py_or_0 ret) lr (np_nanmean lr))
              (replicate (ncols lr) (fdiv (Fin 1) (Fin (real (ncols lr)))))
              (replicate (ncols lr) (Fin 0, Fin 1))
              (find_best_allocation_cons lr (np_nanmean lr) (py_or_0 vol) (py_or_0 ret)))"
    by (simp add: find_best_allocation_def Let_def ser_weights_def)
  show "map con_type (find_best_allocation_cons lr (np_nanmean lr) (py_or_0 vol) (py_or_0 ret)) =
     [''eq'', ''eq'', ''eq'']"
    by (simp add: find_best_allocation_cons_def)
  show "feasible (find_best_allocation_cons lr (np_nanmean lr) (py_or_0 vol) (py_or_0 ret)) w =
     (fsum w = Fin 1 \<and>
      is_fin (py_or_0 ret) \<and> get_return (np_nanmean lr) w = py_or_0 ret \<and>
      is_fin (py_or_0 vol) \<and> get_volatility lr w = py_or_0 vol)"
    by (cases "py_or_0 ret"; cases "py_or_0 vol")
       (auto simp: find_best_allocation_cons_def feasible_def fsub_eq_zero_iff check_sum_zero_iff)
qed

text \<open>
  One asset of constant log return 1, the whole weight on it: it satisfies the constraints
  of the call for the desired volatility 0 and return 252, its own, and not for the desired
  volatility 0 with the return absent.
\<close>

theorem closest_always_pinned_witness:
  "feasible (find_best_allocation_cons
        \<lparr>df_columns = [''A''], df_rows = [[NaN], [Fin 1], [Fin 1]]\<rparr>
        (np_nanmean \<lparr>df_columns = [''A''], df_rows = [[NaN], [Fin 1], [Fin 1]]\<rparr>)
        (py_or_0 (Some (Fin 0))) (py_or_0 (Some (Fin 252)))) [Fin 1] \<and>
   \<not> feasible (find_best_allocation_cons
        \<lparr>df_columns = [''A''], df_rows = [[NaN], [Fin 1], [Fin 1]]\<rparr>
        (np_nanmean \<lparr>df_columns = [''A''], df_rows = [[NaN], [Fin 1], [Fin 1]]\<rparr>)
        (py_or_0 (Some (Fin 0))) (py_or_0 None)) [Fin 1]"
  using closest_always_pinned
    [of stalled_solver "\<lparr>df_columns = [''A''], df_rows = [[NaN], [Fin 1], [Fin 1]]\<rparr>"
        "Some (Fin 0)" "Some (Fin 252)" "[Fin 1]"]
    closest_always_pinned
    [of stalled_solver "\<lparr>df_columns = [''A''], df_rows = [[NaN], [Fin 1], [Fin 1]]\<rparr>"
        "Some (Fin 0)" None "[Fin 1]"]
  by (simp add: py_or_0_def np_nanmean_def ncols_def column_def get_return_def
      get_volatility_def np_cov_def cov_core_def df_tail_def dot_def fsub_def)

text \<open>
  The same input read against the claim: the sum constraint alone accepts the weight
  \<open>[1]\<close>, the constraints the solver is given reject it.
\<close>

theorem closest_absent_still_pinned:
  "check_sum [Fin 1] = Fin 0 \<and>
   length (find_best_allocation_cons
        \<lparr>df_columns = [''A''], df_rows = [[NaN], [Fin 1], [Fin 1]]\<rparr>
        (np_nanmean \<lparr>df_columns = [''A''], df_rows = [[NaN], [Fin 1], [Fin 1]]\<rparr>)
        (py_or_0 None) (py_or_0 None)) = 3 \<and>
   \<not> feasible (find_best_allocation_cons
        \<lparr>df_columns = [''A''], df_rows = [[NaN], [Fin 1], [Fin 1]]\<rparr>
        (np_nanmean \<lparr>df_columns = [''A''], df_rows = [[NaN], [Fin 1], [Fin 1]]\<rparr>)
        (py_or_0 None) (py_or_0 None)) [Fin 1]"
  by (simp add: check_sum_def fsub_def feasible_def find_best_allocation_cons_def
      py_or_0_def np_nanmean_def ncols_def column_def get_return_def)

subsection \<open>Absent desired values\<close>

text \<open>
  Claim C6: for every frame of log returns and every solver, \<^verbatim>\<open>find_best_allocation\<close>
  with both desired values absent returns the same Series as with both equal to 0.
\<close>

theorem closest_absent_is_zero:
  "find_best_allocation minimize lr None None =
   find_best_allocation minimize lr (Some (Fin 0)) (Some (Fin 0))"
  by (simp add: find_best_allocation_def py_or_0_def)

text \<open>The two calls on one asset with the solver that returns its initial guess.\<close>

theorem closest_absent_is_zero_witness:
  "find_best_allocation stalled_solver
     \<lparr>df_columns = [''A''], df_rows = [[NaN], [Fin 1], [Fin 1]]\<rparr> None None =
   find_best_allocation stalled_solver
     \<lparr>df_columns = [''A''], df_rows = [[NaN], [Fin 1], [Fin 1]]\<rparr> (Some (Fin 0)) (Some (Fin 0))"
  by (rule closest_absent_is_zero)

subsection \<open>Zero volatility\<close>

text \<open>
  Claim C7, as the code has it. \<^verbatim>\<open>get_ret_vol_sr\<close> never fails with
  \<open>DegenerateRiskError\<close>: for one weight per column it returns the return, the volatility
  and their quotient, and when the volatility is 0 the Sharpe ratio it returns is the
  \<^verbatim>\<open>float64\<close> quotient by zero, that is \<open>+\<infinity>\<close>, \<open>-\<infinity>\<close> or NaN; the
  \<^verbatim>\<open>Sharpe\<close> column of \<^verbatim>\<open>compute_random_allocations\<close> is the same quotient. For a
  single asset whose log returns after the first row are one constant (at least two of
  them) the volatility is 0 without error, both through \<^verbatim>\<open>get_ret_vol_sr\<close> and through
  \<^verbatim>\<open>get_volatility\<close>.
\<close>

theorem sharpe_zero_volatility:
  "get_ret_vol_sr lr w \<noteq> Inl DegenerateRiskError \<and>
   (length w = ncols lr \<longrightarrow> (\<exists>ret vol. get_ret_vol_sr lr w = Inr [ret, vol, fdiv ret vol])) \<and>
   (get_ret_vol_sr lr w = Inr [ret, Fin 0, sr] \<longrightarrow> sr = PInf \<or> sr = NInf \<or> sr = NaN) \<and>
   (compute_random_allocations rng lr n = Inr df \<and> i < nat n \<and> sd_Volatility df ! i = Fin 0 \<longrightarrow>
      sd_Sharpe df ! i = PInf \<or> sd_Sharpe df ! i = NInf \<or> sd_Sharpe df ! i = NaN) \<and>
   (ncols lr = 1 \<and> df_rows lr = [NaN] # replicate k [Fin c] \<and> 2 \<le> k \<longrightarrow>
      get_volatility lr [Fin x] = Fin 0 \<and>
      get_ret_vol_sr lr [Fin x] =
        Inr [Fin (c * x * 252), Fin 0, fdiv (Fin (c * x * 252)) (Fin 0)])"
proof (intro conjI impI)
  show "get_ret_vol_sr lr w \<noteq> Inl DegenerateRiskError"
    by (simp add: get_ret_vol_sr_def Let_def)
  show "\<exists>ret vol. get_ret_vol_sr lr w = Inr [ret, vol, fdiv ret vol]" if "length w = ncols lr"
    using that by (simp add: get_ret_vol_sr_def Let_def)
  show "sr = PInf \<or> sr = NInf \<or> sr = NaN" if "get_ret_vol_sr lr w = Inr [ret, Fin 0, sr]"
    using that fdiv_by_zero [of ret] by (auto simp: get_ret_vol_sr_def Let_def split: if_splits)
  show "sd_Sharpe df ! i = PInf \<or> sd_Sharpe df ! i = NInf \<or> sd_Sharpe df ! i = NaN"
    if "compute_random_allocations rng lr n = Inr df \<and> i < nat n \<and> sd_Volatility df ! i = Fin 0"
    using that sampler_sharpe [of rng lr n df i] fdiv_by_zero [of "sd_Return df ! i"] by simp
  show "get_volatility lr [Fin x] = Fin 0"
    if "ncols lr = 1 \<and> df_rows lr = [NaN] # replicate k [Fin c] \<and> 2 \<le> k"
    using that single_asset_volatility [of lr k c x] by simp
  show "get_ret_vol_sr lr [Fin x] =
      Inr [Fin (c * x * 252), Fin 0, fdiv (Fin (c * x * 252)) (Fin 0)]"
    if "ncols lr = 1 \<and> df_rows lr = [NaN] # replicate k [Fin c] \<and> 2 \<le> k"
    using that single_asset_ret_vol_sr [of lr k c x] by simp
qed

text \<open>
  A single asset whose price never moves (log returns 0 and 0): the volatility is 0 and
  the Sharpe ratio returned is 0/0 = NaN.
\<close>

theorem sharpe_zero_volatility_witness:
  "get_volatility \<lparr>df_columns = [''A''], df_rows = [[NaN], [Fin 0], [Fin 0]]\<rparr> [Fin 1] = Fin 0 \<and>
   get_ret_vol_sr \<lparr>df_columns = [''A''], df_rows = [[NaN], [Fin 0], [Fin 0]]\<rparr> [Fin 1] =
     Inr [Fin 0, Fin 0, NaN]"
  using sharpe_zero_volatility
    [of "\<lparr>df_columns = [''A''], df_rows = [[NaN], [Fin 0], [Fin 0]]\<rparr>" "[Fin 1]"
        "Fin 0" NaN _ _ _ _ 2 0 1]
  by (simp add: ncols_def numeral_2_eq_2)

text \<open>
  A single asset with the constant log return 1: the volatility is 0 and the call returns
  the Sharpe ratio \<open>+\<infinity>\<close> instead of failing.
\<close>

theorem sharpe_returns_infinity:
  "get_ret_vol_sr \<lparr>df_columns = [''A''], df_rows = [[NaN], [Fin 1], [Fin 1]]\<rparr> [Fin 1] =
     Inr [Fin 252, Fin 0, PInf]"
  by (simp add: get_ret_vol_sr_def pd_mean_def np_nanmean_def pd_cov_def nancorr_entry_def
      ncols_def column_def dot_def matvec_def fsub_def Let_def)

subsection \<open>Size of the sample\<close>

text \<open>
  Claim C8, as the code has it: \<^verbatim>\<open>compute_random_allocations\<close> fails exactly when the
  count is negative, with NumPy's \<open>ValueError\<close> and never with
  \<open>InvalidArgumentError\<close>; for every count from zero on it returns a
  frame with exactly that many rows, in the weight columns and in each of the columns
  \<^verbatim>\<open>Return\<close>, \<^verbatim>\<open>Volatility\<close> and \<^verbatim>\<open>Sharpe\<close>.
\<close>

theorem sampler_count:
  "compute_random_allocations rng lr n \<noteq> Inl InvalidArgumentError \<and>
   (compute_random_allocations rng lr n = Inl ValueError \<longleftrightarrow> n < 0) \<and>
   (0 \<le> n \<longrightarrow>
      (\<exists>df. compute_random_allocations rng lr n = Inr df \<and>
            length (sd_weights df) = nat n \<and> length (sd_Return df) = nat n \<and>
            length (sd_Volatility df) = nat n \<and> length (sd_Sharpe df) = nat n))"
  by (simp add: compute_random_allocations_def Let_def np_random_random_def)

text \<open>A sample of 1000 portfolios over one asset has 1000 rows.\<close>

theorem sampler_count_witness:
  "\<exists>df. compute_random_allocations (\<lambda>k. 1 / 2)
           \<lparr>df_columns = [''A''], df_rows = [[NaN], [Fin 0], [Fin 0]]\<rparr> 1000 = Inr df \<and>
        length (sd_Return df) = 1000"
  using sampler_count [of "\<lambda>k. 1 / 2"
      "\<lparr>df_columns = [''A''], df_rows = [[NaN], [Fin 0], [Fin 0]]\<rparr>" 1000]
  by auto

text \<open>
  A count of zero is not refused: the call returns the frame with no rows, where the
  claim has it fail.
\<close>

theorem sampler_count_zero:
  "compute_random_allocations (\<lambda>k. 1 / 2)
     \<lparr>df_columns = [''A''], df_rows = [[NaN], [Fin 0], [Fin 0]]\<rparr> 0 =
   Inr \<lparr>sd_weights = [], sd_Return = [], sd_Volatility = [], sd_Sharpe = [],
        sd_mean_return = [Fin 0],
        sd_log_return = \<lparr>df_columns = [''A''], df_rows = [[NaN], [Fin 0], [Fin 0]]\<rparr>\<rparr>"
  by (simp add: compute_random_allocations_def Let_def np_random_random_def np_nanmean_def
      ncols_def column_def)

subsection \<open>Size of the price history\<close>

text \<open>
  Claim C9, as the code has it: no size of the price history is refused. For every price
  frame and every count from zero on, the log returns are computed and
  \<^verbatim>\<open>compute_random_allocations\<close> returns a frame whose mean returns are the
  \<^verbatim>\<open>np.nanmean\<close> of the log returns, one per asset; it never fails with
  \<open>InsufficientDataError\<close>. With fewer than two price rows there is no return period and
  every mean return is NaN.
\<close>

theorem estimator_accepts_any_frame:
  "compute_random_allocations rng (log_ret stocks) n \<noteq> Inl InsufficientDataError \<and>
   (0 \<le> n \<longrightarrow>
      (\<exists>df. compute_random_allocations rng (log_ret stocks) n = Inr df \<and>
            sd_mean_return df = np_nanmean (log_ret stocks) \<and>
            length (sd_mean_return df) = ncols stocks)) \<and>
   (wf_df stocks \<and> length (df_rows stocks) < 2 \<longrightarrow>
      np_nanmean (log_ret stocks) = replicate (ncols stocks) NaN)"
proof (intro conjI impI)
  show "compute_random_allocations rng (log_ret stocks) n \<noteq> Inl InsufficientDataError"
    by (simp add: compute_random_allocations_def Let_def)
  show "\<exists>df. compute_random_allocations rng (log_ret stocks) n = Inr df \<and>
            sd_mean_return df = np_nanmean (log_ret stocks) \<and>
            length (sd_mean_return df) = ncols stocks" if "0 \<le> n"
    using that
    by (simp add: compute_random_allocations_def Let_def np_nanmean_def ncols_def log_ret_def)
  show "np_nanmean (log_ret stocks) = replicate (ncols stocks) NaN"
    if short: "wf_df stocks \<and> length (df_rows stocks) < 2"
  proof -
    have nc: "ncols (log_ret stocks) = ncols stocks"
      by (simp add: ncols_def log_ret_def)
    have col: "filter (\<lambda>v. \<not> isnan v) (column (log_ret stocks) j) = []" if "j < ncols stocks" for j
    proof (cases "df_rows stocks")
      case Nil
      then show ?thesis
        by (simp add: column_def log_ret_def shift1_def)
    next
      case (Cons r rs)
      with short have "rs = []" and "length r = ncols stocks"
        by (simp_all add: wf_df_def)
      with Cons that show ?thesis
        by (simp add: column_def log_ret_def shift1_def fdiv_NaN_right)
    qed
    have "np_nanmean (log_ret stocks) = map (\<lambda>j. NaN) [0..<ncols stocks]"
      unfolding np_nanmean_def nc by (rule map_cong [OF refl]) (simp add: col Let_def)
    then show ?thesis
      by (simp add: map_replicate_const)
  qed
qed

text \<open>
  Two price rows of one asset at the price 100 give the single log return 0 and the mean 0;
  one price row gives the mean NaN.
\<close>

theorem estimator_accepts_any_frame_witness:
  "(\<exists>df. compute_random_allocations (\<lambda>k. 1 / 2)
           (log_ret \<lparr>df_columns = [''A''], df_rows = [[Fin 100], [Fin 100]]\<rparr>) 1 = Inr df \<and>
         sd_mean_return df = [Fin 0]) \<and>
   np_nanmean (log_ret \<lparr>df_columns = [''A''], df_rows = [[Fin 100]]\<rparr>) = [NaN]"
proof -
  have "np_nanmean (log_ret \<lparr>df_columns = [''A''], df_rows = [[Fin 100], [Fin 100]]\<rparr>) = [Fin 0]"
    by (simp add: np_nanmean_def log_ret_def shift1_def ncols_def column_def)
  then show ?thesis
    using estimator_accepts_any_frame
        [of "\<lambda>k. 1 / 2" "\<lparr>df_columns = [''A''], df_rows = [[Fin 100], [Fin 100]]\<rparr>" 1]
      estimator_accepts_any_frame
        [of "\<lambda>k. 1 / 2" "\<lparr>df_columns = [''A''], df_rows = [[Fin 100]]\<rparr>" 1]
    by (auto simp: wf_df_def ncols_def)
qed

text \<open>
  A price history of one row is not refused: the call returns a frame whose mean return
  is NaN.
\<close>

theorem estimator_one_price_row:
  "compute_random_allocations (\<lambda>k. 1 / 2)
     (log_ret \<lparr>df_columns = [''A''], df_rows = [[Fin 100]]\<rparr>) 1 =
   Inr \<lparr>sd_weights = [[Fin 1]], sd_Return = [NaN], sd_Volatility = [Fin (sqrt 252)],
        sd_Sharpe = [NaN], sd_mean_return = [NaN],
        sd_log_return = \<lparr>df_columns = [''A''], df_rows = [[NaN]]\<rparr>\<rparr>"
  by (simp add: compute_random_allocations_def Let_def np_random_random_def np_nanmean_def
      log_ret_def shift1_def ncols_def column_def rebalance_def return_covariance_def
      np_cov_def cov_core_def df_tail_def dot_def matvec_def)

subsection \<open>Metrics of the closest allocation\<close>

text \<open>
  Claim C10: for every frame of log returns, every solver and every desired volatility
  and return, the entry \<^verbatim>\<open>Return\<close> of the Series \<^verbatim>\<open>find_best_allocation\<close> returns
  is \<^verbatim>\<open>get_return\<close> of the weights in that Series and its entry \<^verbatim>\<open>Volatility\<close> is
  \<^verbatim>\<open>get_volatility\<close> of those weights.
\<close>

theorem closest_reports_realized:
  "ser_Return (find_best_allocation minimize lr vol ret) =
     get_return (np_nanmean lr) (ser_weights (find_best_allocation minimize lr vol ret)) \<and>
   ser_Volatility (find_best_allocation minimize lr vol ret) =
     get_volatility lr (ser_weights (find_best_allocation minimize lr vol ret))"
  by (simp add: find_best_allocation_def Let_def ser_weights_def ser_Return_def
      ser_Volatility_def nth_append)

text \<open>
  Desired volatility 5 and return 7 on one asset of constant log return 1, with the solver
  that returns its initial guess: the Series reports the return 252 and the volatility 0
  of the weight it holds, not 7 and 5.
\<close>

theorem closest_reports_realized_witness:
  "ser_values (find_best_allocation stalled_solver
      \<lparr>df_columns = [''A''], df_rows = [[NaN], [Fin 1], [Fin 1]]\<rparr>
      (Some (Fin 5)) (Some (Fin 7))) = [Fin 1, Fin 252, Fin 0] \<and>
   ser_Return (find_best_allocation stalled_solver
      \<lparr>df_columns = [''A''], df_rows = [[NaN], [Fin 1], [Fin 1]]\<rparr>
      (Some (Fin 5)) (Some (Fin 7))) = Fin 252 \<and>
   ser_Volatility (find_best_allocation stalled_solver
      \<lparr>df_columns = [''A''], df_rows = [[NaN], [Fin 1], [Fin 1]]\<rparr>
      (Some (Fin 5)) (Some (Fin 7))) = Fin 0"
proof -
  let ?lr = "\<lparr>df_columns = [''A''], df_rows = [[NaN], [Fin 1], [Fin 1]]\<rparr>"
  let ?p = "find_best_allocation stalled_solver ?lr (Some (Fin 5)) (Some (Fin 7))"
  have w: "ser_weights ?p = [Fin 1]"
    by (simp add: find_best_allocation_def Let_def ser_weights_def stalled_solver_def ncols_def)
  have r: "get_return (np_nanmean ?lr) [Fin 1] = Fin 252"
    by (simp add: get_return_def np_nanmean_def ncols_def column_def)
  have v: "get_volatility ?lr [Fin 1] = Fin 0"
    by (simp add: get_volatility_def np_cov_def cov_core_def df_tail_def ncols_def column_def
        dot_def fsub_def)
  have vals: "ser_values ?p = ser_weights ?p @ [ser_Return ?p, ser_Volatility ?p]"
    by (simp add: find_best_allocation_def Let_def ser_weights_def ser_Return_def
        ser_Volatility_def nth_append)
  show ?thesis
    using closest_reports_realized [of stalled_solver ?lr "Some (Fin 5)" "Some (Fin 7)"]
    by (simp add: vals w r v)
qed

end
